theory Spec2Isabelle
  imports Main "HOL-Library.Word" "HOL-Library.Sublist"
begin

section \<open>The streaming OCR client (frontend/src/App.tsx)\<close>

text \<open>
  The component keeps six pieces of React state and changes them in its event handlers.
  The model is a record of that state and one function for each handler the properties
  below are about: \<open>handleSubmit\<close>, \<open>handleNextPage\<close>, \<open>handlePrevPage\<close>,
  \<open>handlePageClick\<close>, \<open>handleDownloadMarkdown\<close>, and \<open>handleFileChange\<close>, \<open>handleDrag\<close>,
  \<open>handleDrop\<close> and \<open>handleReset\<close>, which can run while a stream is read. What the
  handlers receive from the platform is an argument of the model:
  \<^item> \<open>dstep\<close>, \<open>d0\<close>: the \<open>TextDecoder\<close>. \<open>decode(value, {stream: true})\<close> consumes the
    bytes of a chunk one after the other and keeps its state between calls; \<open>dstep\<close> is
    what it does with one byte (new state, code units written), \<open>d0\<close> its first state;
  \<^item> \<open>P\<close>: \<open>JSON.parse\<close>, with \<open>None\<close> where it throws a \<open>SyntaxError\<close>;
  \<^item> \<open>N\<close>: the conversion of a number to a string, as template literals apply it;
  \<^item> \<open>now\<close>: the string \<open>new Date().toLocaleString()\<close> returns when it is called.
  Strings are lists of code units, written as \<open>string\<close>. The numbers of the events are
  an arbitrary type \<open>'n\<close> with 0 and the natural numbers in it (the reset writes 0, the
  document a count): the component does no arithmetic on them. The page index, which it
  increments, decrements and compares with a length, is an \<open>int\<close>.
\<close>

subsection \<open>JavaScript values\<close>

datatype js_error = TypeError

datatype 'n jsval =
    JUndefined
  | JNull
  | JBool bool
  | JNum 'n
  | JStr string
  | JArr "'n jsval list"
  | JObj "(string \<times> 'n jsval) list"

text \<open>
  \<open>get v k\<close> is the property read \<open>v.k\<close> for the property names the component reads
  (\<open>type\<close>, \<open>total_pages\<close>, \<open>page_number\<close>, \<open>ocr_text\<close>, \<open>status\<close>, \<open>error\<close>,
  \<open>page_image\<close>, \<open>api_calls_made\<close>, \<open>message\<close>): an own property of an object, and
  \<open>undefined\<close> otherwise, since no prototype has a property of these names. The list
  of an object holds its own properties; of two entries with one name the first is
  read. On \<open>null\<close> and \<open>undefined\<close> JavaScript throws instead; \<open>handleData\<close> below
  tests for them before it reads a property.
\<close>

fun get :: "'n jsval \<Rightarrow> string \<Rightarrow> 'n jsval" where
  "get (JObj kvs) k = (case map_of kvs k of None \<Rightarrow> JUndefined | Some v \<Rightarrow> v)"
| "get v k = JUndefined"

text \<open>\<open>Array.prototype.join\<close> on an array of strings.\<close>

fun join :: "string \<Rightarrow> string list \<Rightarrow> string" where
  "join sep [] = []"
| "join sep [x] = x"
| "join sep (x # y # ys) = x @ sep @ join sep (y # ys)"

text \<open>
  The conversion to a string that a template literal applies to \<open>${v}\<close>. An array is
  its elements joined by commas, \<open>null\<close> and \<open>undefined\<close> elements giving the empty
  string. An object is \<open>[object Object]\<close>, unless it has an own property \<open>toString\<close>:
  a parsed value is never callable, so the conversion then throws a \<open>TypeError\<close>
  (\<open>None\<close>).
\<close>

fun toString :: "('n \<Rightarrow> string) \<Rightarrow> 'n jsval \<Rightarrow> string option" where
  "toString N JUndefined = Some ''undefined''"
| "toString N JNull = Some ''null''"
| "toString N (JBool b) = Some (if b then ''true'' else ''false'')"
| "toString N (JNum n) = Some (N n)"
| "toString N (JStr s) = Some s"
| "toString N (JArr vs) =
     map_option (join '','')
       (those (map (\<lambda>v. if v = JNull \<or> v = JUndefined then Some [] else toString N v) vs))"
| "toString N (JObj kvs) =
     (if ''toString'' \<in> fst ` set kvs then None else Some ''[object Object]'')"

text \<open>
  The decimal digits of a natural number: what the conversion of a number to a string
  gives for the page numbers and the counts of the examples below.
\<close>

fun decimal :: "nat \<Rightarrow> string" where
  "decimal n =
     (if n < 10 then [''0123456789'' ! n]
      else decimal (n div 10) @ [''0123456789'' ! (n mod 10)])"

subsection \<open>The state of the component\<close>

text \<open>
  The interfaces \<open>OCRResult\<close> and \<open>StreamingState\<close> and the six \<open>useState\<close> cells.
  The fields of a result, \<open>total_pages\<close>, \<open>processing_page\<close>, \<open>api_calls_made\<close> and
  \<open>error\<close> are copied from parsed events with no test of their type, so they hold
  any value; a field that is absent reads \<open>undefined\<close>. The field \<open>error\<close> of a
  result is \<open>result_error\<close> here, the cell \<open>file\<close> is \<open>pdf_file\<close>, and of a \<open>File\<close> the
  name and the type are read.
\<close>

record 'n OCRResult =
  page_number :: "'n jsval"
  ocr_text :: "'n jsval"
  status :: "'n jsval"
  result_error :: "'n jsval"
  page_image :: "'n jsval"

record 'n StreamingState =
  total_pages :: "'n jsval"
  results :: "'n OCRResult list"
  processing_page :: "'n jsval"
  api_calls_made :: "'n jsval"
  complete :: bool

record File =
  name :: string
  type :: string

record 'n App =
  pdf_file :: "File option"
  loading :: bool
  streamingState :: "'n StreamingState option"
  error :: "'n jsval"
  dragActive :: bool
  currentPageIndex :: int

subsection \<open>handleSubmit: the reset, the read loop and the events\<close>

text \<open>Lines 84 to 91: the state a submission starts from.\<close>

definition begin_submit :: "('n::semiring_1) App \<Rightarrow> 'n App" where
  "begin_submit app =
     app\<lparr>loading := True,
         error := JStr [],
         currentPageIndex := 0,
         streamingState := Some \<lparr>total_pages = JNum 0, results = [],
           processing_page = JUndefined, api_calls_made = JUndefined, complete = False\<rparr>\<rparr>"

text \<open>
  \<open>setStreamingState(prev => ({...prev!, ...}))\<close>: the updater is written for a state
  that is not \<open>null\<close>. On \<open>null\<close> (a file chosen while a stream is read) the object it
  builds has no \<open>results\<close>, or the updater itself throws, and the next render of the
  component fails with a \<open>TypeError\<close>.
\<close>

definition updateStreamingState ::
  "('n StreamingState \<Rightarrow> 'n StreamingState) \<Rightarrow> 'n App \<Rightarrow> js_error + 'n App" where
  "updateStreamingState f app =
     (case streamingState app of
        None \<Rightarrow> Inl TypeError
      | Some prev \<Rightarrow> Inr (app\<lparr>streamingState := Some (f prev)\<rparr>))"

text \<open>The object literal of lines 146 to 152.\<close>

definition newResult :: "'n jsval \<Rightarrow> 'n OCRResult" where
  "newResult data =
     \<lparr>page_number = get data ''page_number'',
      ocr_text = get data ''ocr_text'',
      status = get data ''status'',
      result_error = get data ''error'',
      page_image = get data ''page_image''\<rparr>"

text \<open>
  Lines 131 to 170, the body of the \<open>try\<close> once a line is parsed. Reading \<open>data.type\<close>
  of \<open>null\<close> throws; the \<open>catch\<close> of line 171 logs it and the state stays as it is.
\<close>

definition handleData :: "'n jsval \<Rightarrow> 'n App \<Rightarrow> js_error + 'n App" where
  "handleData data app =
     (if data = JNull \<or> data = JUndefined then Inr app
      else if get data ''type'' = JStr ''metadata'' then
        updateStreamingState (\<lambda>prev. prev\<lparr>total_pages := get data ''total_pages''\<rparr>) app
      else if get data ''type'' = JStr ''processing'' then
        updateStreamingState (\<lambda>prev. prev\<lparr>processing_page := get data ''page_number''\<rparr>) app
      else if get data ''type'' = JStr ''result'' then
        updateStreamingState
          (\<lambda>prev. prev\<lparr>results := results prev @ [newResult data],
                       processing_page := JUndefined\<rparr>) app
      else if get data ''type'' = JStr ''complete'' then
        (case updateStreamingState
                (\<lambda>prev. prev\<lparr>complete := True,
                             api_calls_made := get data ''api_calls_made''\<rparr>) app of
           Inl e \<Rightarrow> Inl e
         | Inr app' \<Rightarrow> Inr (app'\<lparr>loading := False\<rparr>))
      else if get data ''type'' = JStr ''error'' then
        Inr (app\<lparr>error := get data ''message'', loading := False\<rparr>)
      else Inr app)"

text \<open>Once the component has failed, later events find nothing to update.\<close>

definition handleData_step :: "'n jsval \<Rightarrow> js_error + 'n App \<Rightarrow> js_error + 'n App" where
  "handleData_step data s = (case s of Inl e \<Rightarrow> Inl e | Inr app \<Rightarrow> handleData data app)"

fun handleData_all :: "'n jsval list \<Rightarrow> 'n App \<Rightarrow> js_error + 'n App" where
  "handleData_all [] app = Inr app"
| "handleData_all (data # ds) app =
     (case handleData data app of Inl e \<Rightarrow> Inl e | Inr app' \<Rightarrow> handleData_all ds app')"

text \<open>\<open>decoder.decode(value, {stream: true})\<close> on one chunk.\<close>

type_synonym byte = "8 word"

fun decode :: "('d \<Rightarrow> byte \<Rightarrow> 'd \<times> string) \<Rightarrow> 'd \<Rightarrow> byte list \<Rightarrow> 'd \<times> string" where
  "decode dstep d [] = (d, [])"
| "decode dstep d (b # bs) =
     (case dstep d b of (d', out) \<Rightarrow>
        (case decode dstep d' bs of (d'', rest) \<Rightarrow> (d'', out @ rest)))"

text \<open>
  \<open>buffer.split('\n')\<close>: the pieces between the line feeds, the text read so far in
  \<open>cur\<close>. The result is never empty.
\<close>

fun split_acc :: "string \<Rightarrow> string \<Rightarrow> string list" where
  "split_acc cur [] = [cur]"
| "split_acc cur (c # cs) =
     (if c = CHR 0x0A then cur # split_acc [] cs else split_acc (cur @ [c]) cs)"

definition split_nl :: "string \<Rightarrow> string list" where
  "split_nl s = split_acc [] s"

text \<open>\<open>lines.pop()\<close>: the rest of the array and the element removed, if there is one.\<close>

definition pop :: "'a list \<Rightarrow> 'a list \<times> 'a option" where
  "pop xs = (if xs = [] then ([], None) else (butlast xs, Some (last xs)))"

text \<open>
  Lines 128 to 174 for one line. What is done with a parsed value is the argument \<open>h\<close>:
  the component runs \<open>handleData\<close>; a recorder in its place gives the sequence of
  events the loop produces.
\<close>

definition process_line ::
  "(string \<Rightarrow> 'n jsval option) \<Rightarrow> ('n jsval \<Rightarrow> 's \<Rightarrow> 's) \<Rightarrow> string \<Rightarrow> 's \<Rightarrow> 's" where
  "process_line P h line s =
     (if prefix ''data: '' line then
        (case P (drop 6 line) of
           None \<Rightarrow> s
         | Some data \<Rightarrow> h data s)
      else s)"

text \<open>Lines 123 to 175: one chunk, with the decoder, the buffer and the state.\<close>

definition on_chunk ::
  "('d \<Rightarrow> byte \<Rightarrow> 'd \<times> string) \<Rightarrow> (string \<Rightarrow> 'n jsval option) \<Rightarrow> ('n jsval \<Rightarrow> 's \<Rightarrow> 's) \<Rightarrow>
     byte list \<Rightarrow> 'd \<times> string \<times> 's \<Rightarrow> 'd \<times> string \<times> 's" where
  "on_chunk dstep P h chunk st =
     (case st of (d, buffer, s) \<Rightarrow>
        (case decode dstep d chunk of (d', text) \<Rightarrow>
           (case pop (split_nl (buffer @ text)) of (lines, popped) \<Rightarrow>
              (d',
               (case popped of None \<Rightarrow> [] | Some l \<Rightarrow> if l = [] then [] else l),
               fold (process_line P h) lines s))))"

text \<open>
  Lines 113 to 176: the loop over the chunks the reader delivers until \<open>done\<close>. The
  buffer starts empty; what is left in it at the end is dropped.
\<close>

definition read_stream ::
  "('d \<Rightarrow> byte \<Rightarrow> 'd \<times> string) \<Rightarrow> 'd \<Rightarrow> (string \<Rightarrow> 'n jsval option) \<Rightarrow> ('n jsval \<Rightarrow> 's \<Rightarrow> 's) \<Rightarrow>
     byte list list \<Rightarrow> 's \<Rightarrow> 's" where
  "read_stream dstep d0 P h chunks s =
     snd (snd (fold (on_chunk dstep P h) chunks (d0, [], s)))"

text \<open>
  The events of a stream: the loop run with a recorder in the place of the component,
  which keeps every parsed value in the order in which the loop hands it on.
\<close>

definition record_event :: "'n jsval \<Rightarrow> 'n jsval list \<Rightarrow> 'n jsval list" where
  "record_event data log = log @ [data]"

definition frame_events ::
  "('d \<Rightarrow> byte \<Rightarrow> 'd \<times> string) \<Rightarrow> 'd \<Rightarrow> (string \<Rightarrow> 'n jsval option) \<Rightarrow>
     byte list list \<Rightarrow> 'n jsval list" where
  "frame_events dstep d0 P chunks = read_stream dstep d0 P record_event chunks []"

text \<open>The event of one line, if it has one.\<close>

definition line_event :: "(string \<Rightarrow> 'n jsval option) \<Rightarrow> string \<Rightarrow> 'n jsval option" where
  "line_event P line = process_line P (\<lambda>data _. Some data) line None"

text \<open>
  What \<open>fetch\<close> and the reader give to \<open>handleSubmit\<close>: a rejected request, a response
  that is not \<open>ok\<close> with its status, a response without a body, or a body read chunk by
  chunk until it is done or a read is rejected. The strings are the \<open>message\<close> of the
  error thrown, empty when it has none.
\<close>

datatype stream_end = Done | ReadRejected string

datatype response =
    FetchRejected string
  | NotOk nat
  | NoReader
  | Body "byte list list" stream_end

text \<open>The \<open>catch\<close> of lines 177 to 180.\<close>

definition catch_err :: "string \<Rightarrow> 'n App \<Rightarrow> 'n App" where
  "catch_err msg app =
     app\<lparr>error := JStr (if msg = [] then ''An error occurred while processing the PDF'' else msg),
         loading := False\<rparr>"

definition handleSubmit ::
  "('d \<Rightarrow> byte \<Rightarrow> 'd \<times> string) \<Rightarrow> 'd \<Rightarrow> (string \<Rightarrow> 'n jsval option) \<Rightarrow> ('n \<Rightarrow> string) \<Rightarrow>
     response \<Rightarrow> ('n::semiring_1) App \<Rightarrow> js_error + 'n App" where
  "handleSubmit dstep d0 P N resp app =
     (case pdf_file app of
        None \<Rightarrow> Inr (app\<lparr>error := JStr ''Please select a PDF file''\<rparr>)
      | Some f \<Rightarrow>
          (case resp of
             FetchRejected msg \<Rightarrow> Inr (catch_err msg (begin_submit app))
           | NotOk st \<Rightarrow>
               Inr (catch_err (''HTTP error! status: '' @ N (of_nat st)) (begin_submit app))
           | NoReader \<Rightarrow> Inr (catch_err ''Failed to get response reader'' (begin_submit app))
           | Body chunks e \<Rightarrow>
               (case read_stream dstep d0 P handleData_step chunks (Inr (begin_submit app)) of
                  Inl err \<Rightarrow> Inl err
                | Inr app' \<Rightarrow>
                    (case e of
                       Done \<Rightarrow> Inr (app'\<lparr>loading := False\<rparr>)
                     | ReadRejected msg \<Rightarrow> Inr (catch_err msg app')))))"

subsection \<open>Navigation\<close>

definition handleNextPage :: "'n App \<Rightarrow> 'n App" where
  "handleNextPage app =
     (case streamingState app of
        None \<Rightarrow> app
      | Some st \<Rightarrow>
          if currentPageIndex app < int (length (results st)) - 1
          then app\<lparr>currentPageIndex := currentPageIndex app + 1\<rparr>
          else app)"

definition handlePrevPage :: "'n App \<Rightarrow> 'n App" where
  "handlePrevPage app =
     (if currentPageIndex app > 0
      then app\<lparr>currentPageIndex := currentPageIndex app - 1\<rparr>
      else app)"

definition handlePageClick :: "int \<Rightarrow> 'n App \<Rightarrow> 'n App" where
  "handlePageClick index app = app\<lparr>currentPageIndex := index\<rparr>"


text \<open>
  The selected index is inside the results, or there are no results and it is 0.
\<close>

definition index_ok :: "'n App \<Rightarrow> bool" where
  "index_ok app =
     (case streamingState app of
        None \<Rightarrow> currentPageIndex app = 0
      | Some st \<Rightarrow>
          if results st = [] then currentPageIndex app = 0
          else 0 \<le> currentPageIndex app \<and> currentPageIndex app < int (length (results st)))"

subsection \<open>Choosing a file, dragging and resetting\<close>





subsection \<open>The states of a job\<close>


subsection \<open>handleDownloadMarkdown\<close>

text \<open>The filter of lines 197, 205, 345 and 365.\<close>

definition successful :: "'n OCRResult list \<Rightarrow> 'n OCRResult list" where
  "successful rs = filter (\<lambda>result. status result = JStr ''success'') rs"

text \<open>The template of line 199 for one result.\<close>

definition page_md :: "('n \<Rightarrow> string) \<Rightarrow> 'n OCRResult \<Rightarrow> string option" where
  "page_md N result =
     (case toString N (page_number result) of
        None \<Rightarrow> None
      | Some p \<Rightarrow>
          (case toString N (ocr_text result) of
             None \<Rightarrow> None
           | Some t \<Rightarrow>
               Some (''# Page '' @ p @ [CHR 0x0A, CHR 0x0A] @ t @
                     [CHR 0x0A, CHR 0x0A] @ ''---'' @ [CHR 0x0A])))"

definition markdownContent :: "('n \<Rightarrow> string) \<Rightarrow> 'n OCRResult list \<Rightarrow> string option" where
  "markdownContent N rs =
     map_option (join [CHR 0x0A]) (those (map (page_md N) (successful rs)))"

text \<open>\<open>file?.name || 'Document'\<close>: the name of the file, if there is one and it is not empty.\<close>

definition file_name_or :: "File option \<Rightarrow> string \<Rightarrow> string" where
  "file_name_or f dflt =
     (case f of None \<Rightarrow> dflt | Some fl \<Rightarrow> if name fl = [] then dflt else name fl)"

text \<open>The head of the document, lines 203 to 207.\<close>

definition document_head ::
  "('n \<Rightarrow> string) \<Rightarrow> string \<Rightarrow> File option \<Rightarrow> ('n::semiring_1) StreamingState \<Rightarrow> string option" where
  "document_head N now f st =
     (case toString N (total_pages st) of
        None \<Rightarrow> None
      | Some tp \<Rightarrow>
          Some (''# OCR Results - '' @ file_name_or f ''Document'' @ [CHR 0x0A, CHR 0x0A] @
                ''**Total Pages:** '' @ tp @ [CHR 0x0A] @
                ''**Successful Pages:** '' @ N (of_nat (length (successful (results st)))) @
                  [CHR 0x0A] @
                ''**Generated:** '' @ now @ [CHR 0x0A, CHR 0x0A] @
                ''---'' @ [CHR 0x0A, CHR 0x0A]))"

text \<open>
  The handler returns early without a document, throws where a conversion to a string
  throws, or hands the text \<open>fullContent\<close> to the browser as a file. The name given to
  that file (line 214) is not part of the model.
\<close>

datatype download = NoDownload | Threw js_error | Document string

definition handleDownloadMarkdown ::
  "('n \<Rightarrow> string) \<Rightarrow> string \<Rightarrow> ('n::semiring_1) App \<Rightarrow> download" where
  "handleDownloadMarkdown N now app =
     (case streamingState app of
        None \<Rightarrow> NoDownload
      | Some st \<Rightarrow>
          if length (results st) = 0 then NoDownload
          else
            (case markdownContent N (results st) of
               None \<Rightarrow> Threw TypeError
             | Some md \<Rightarrow>
                 (case document_head N now (pdf_file app) st of
                    None \<Rightarrow> Threw TypeError
                  | Some head \<Rightarrow> Document (head @ md))))"

section \<open>Properties\<close>

subsection \<open>The read loop\<close>

lemma split_acc_not_Nil: "split_acc cur s \<noteq> []"
  by (induction s arbitrary: cur) auto

lemma split_acc_append:
  "split_acc cur (s @ t) = butlast (split_acc cur s) @ split_acc (last (split_acc cur s)) t"
  by (induction s arbitrary: cur) (auto simp: split_acc_not_Nil)

lemma last_split_acc_nl_free:
  "CHR 0x0A \<notin> set cur \<Longrightarrow> CHR 0x0A \<notin> set (last (split_acc cur s))"
  by (induction s arbitrary: cur) (auto simp: split_acc_not_Nil)

lemma split_acc_cur:
  "CHR 0x0A \<notin> set cur \<Longrightarrow> split_acc cur s = split_acc [] (cur @ s)"
proof (induction cur arbitrary: s rule: rev_induct)
  case Nil
  show ?case by simp
next
  case (snoc c cur)
  from snoc.prems have c: "c \<noteq> CHR 0x0A" and cur: "CHR 0x0A \<notin> set cur" by auto
  have "split_acc [] ((cur @ [c]) @ s) = split_acc [] (cur @ (c # s))" by simp
  also have "\<dots> = split_acc cur (c # s)" using snoc.IH [OF cur, of "c # s"] by simp
  also have "\<dots> = split_acc (cur @ [c]) s" using c by simp
  finally show ?case by simp
qed

lemma split_nl_append:
  "split_nl (x @ y) = butlast (split_nl x) @ split_nl (last (split_nl x) @ y)"
proof -
  have "CHR 0x0A \<notin> set (last (split_acc [] x))"
    by (rule last_split_acc_nl_free) simp
  then have "split_acc (last (split_acc [] x)) y = split_acc [] (last (split_acc [] x) @ y)"
    by (rule split_acc_cur)
  then show ?thesis
    unfolding split_nl_def by (simp add: split_acc_append)
qed

lemma split_nl_nl_free: "CHR 0x0A \<notin> set s \<Longrightarrow> split_nl s = [s]"
proof -
  assume "CHR 0x0A \<notin> set s"
  then have "split_acc s [] = split_acc [] (s @ [])" by (rule split_acc_cur)
  then show ?thesis by (simp add: split_nl_def)
qed

lemma decode_append:
  "decode dstep d (xs @ ys) =
     (case decode dstep d xs of (d', t1) \<Rightarrow>
        (case decode dstep d' ys of (d'', t2) \<Rightarrow> (d'', t1 @ t2)))"
  by (induction xs arbitrary: d) (auto split: prod.splits)

lemma on_chunk_buffer_nl_free:
  "on_chunk dstep P h chunk st = (d', b', s') \<Longrightarrow> CHR 0x0A \<notin> set b'"
  using last_split_acc_nl_free [of "[]"]
  by (auto simp: on_chunk_def pop_def split_nl_def split_acc_not_Nil split: prod.splits if_splits)

lemma on_chunk_append:
  "on_chunk dstep P h (c1 @ c2) st = on_chunk dstep P h c2 (on_chunk dstep P h c1 st)"
proof -
  obtain d b s where st: "st = (d, b, s)" by (cases st)
  obtain d1 t1 where d1: "decode dstep d c1 = (d1, t1)" by (cases "decode dstep d c1")
  obtain d2 t2 where d2: "decode dstep d1 c2 = (d2, t2)" by (cases "decode dstep d1 c2")
  have dec: "decode dstep d (c1 @ c2) = (d2, t1 @ t2)"
    by (simp add: decode_append d1 d2)
  have sp: "split_nl (b @ t1 @ t2) =
      butlast (split_nl (b @ t1)) @ split_nl (last (split_nl (b @ t1)) @ t2)"
    using split_nl_append [of "b @ t1" t2] by simp
  have ne: "split_nl u \<noteq> []" for u by (simp add: split_nl_def split_acc_not_Nil)
  show ?thesis
    by (simp add: st on_chunk_def d1 d2 dec sp pop_def ne butlast_append last_append)
qed

lemma on_chunk_Nil:
  "CHR 0x0A \<notin> set b \<Longrightarrow> on_chunk dstep P h [] (d, b, s) = (d, b, s)"
  by (simp add: on_chunk_def split_nl_nl_free pop_def)

lemma fold_on_chunk:
  "CHR 0x0A \<notin> set b \<Longrightarrow>
   fold (on_chunk dstep P h) chunks (d, b, s) = on_chunk dstep P h (concat chunks) (d, b, s)"
proof (induction chunks arbitrary: d b s)
  case Nil
  then show ?case by (simp add: on_chunk_Nil)
next
  case (Cons c cs)
  obtain d' b' s' where st: "on_chunk dstep P h c (d, b, s) = (d', b', s')"
    by (cases "on_chunk dstep P h c (d, b, s)")
  then have "CHR 0x0A \<notin> set b'" by (rule on_chunk_buffer_nl_free)
  then have "fold (on_chunk dstep P h) cs (d', b', s') =
      on_chunk dstep P h (concat cs) (d', b', s')" by (rule Cons.IH)
  then show ?case by (simp add: st on_chunk_append)
qed

lemma read_stream_whole:
  "read_stream dstep d0 P h chunks s = read_stream dstep d0 P h [concat chunks] s"
  by (simp add: read_stream_def fold_on_chunk)


lemma split_acc_line:
  "CHR 0x0A \<notin> set l \<Longrightarrow> split_acc cur (l @ CHR 0x0A # rest) = (cur @ l) # split_acc [] rest"
  by (induction l arbitrary: cur) auto

lemma split_nl_lines:
  "\<forall>l\<in>set ls. CHR 0x0A \<notin> set l \<Longrightarrow>
   split_nl (concat (map (\<lambda>l. l @ [CHR 0x0A]) ls)) = ls @ [[]]"
proof (induction ls)
  case Nil
  show ?case by (simp add: split_nl_def)
next
  case (Cons l ls)
  then have "split_acc [] (l @ CHR 0x0A # concat (map (\<lambda>l. l @ [CHR 0x0A]) ls)) =
      l # split_acc [] (concat (map (\<lambda>l. l @ [CHR 0x0A]) ls))"
    using split_acc_line [of l "[]"] by simp
  with Cons show ?case by (simp add: split_nl_def)
qed

lemma read_stream_lines:
  "read_stream dstep d0 P h chunks s =
     fold (process_line P h) (butlast (split_nl (snd (decode dstep d0 (concat chunks))))) s"
proof -
  have ne: "split_nl u \<noteq> []" for u by (simp add: split_nl_def split_acc_not_Nil)
  have "read_stream dstep d0 P h chunks s =
      snd (snd (on_chunk dstep P h (concat chunks) (d0, [], s)))"
    by (simp add: read_stream_def fold_on_chunk)
  then show ?thesis
    by (simp add: on_chunk_def pop_def ne split: prod.splits)
qed

lemma process_line_event:
  "process_line P h line s = (case line_event P line of None \<Rightarrow> s | Some data \<Rightarrow> h data s)"
  by (simp add: process_line_def line_event_def split: option.splits)

lemma fold_record_event:
  "fold (process_line P record_event) ls log = log @ List.map_filter (line_event P) ls"
  by (induction ls arbitrary: log)
    (auto simp: process_line_event record_event_def split: option.splits)

lemma frame_events_lines:
  "frame_events dstep d0 P chunks =
     List.map_filter (line_event P) (butlast (split_nl (snd (decode dstep d0 (concat chunks)))))"
  by (simp add: frame_events_def read_stream_lines fold_record_event)

lemma fold_lines_Inl:
  "fold (process_line P handleData_step) ls (Inl e) = Inl e"
proof (induction ls)
  case Nil
  show ?case by simp
next
  case (Cons l ls)
  have "process_line P handleData_step l (Inl e) = Inl e"
    by (cases "line_event P l") (simp_all add: process_line_event handleData_step_def)
  with Cons show ?case by simp
qed

lemma fold_lines_handleData_all:
  "fold (process_line P handleData_step) ls (Inr app) =
     handleData_all (List.map_filter (line_event P) ls) app"
proof (induction ls arbitrary: app)
  case Nil
  show ?case by simp
next
  case (Cons l ls)
  show ?case
  proof (cases "line_event P l")
    case None
    then have "process_line P handleData_step l (Inr app) = Inr app"
      by (simp add: process_line_event)
    with None show ?thesis by (simp add: Cons.IH)
  next
    case (Some data)
    then have p: "process_line P handleData_step l (Inr app) = handleData data app"
      by (simp add: process_line_event handleData_step_def)
    show ?thesis
    proof (cases "handleData data app")
      case (Inl e)
      with p Some show ?thesis by (simp add: fold_lines_Inl)
    next
      case (Inr app')
      with p Some show ?thesis by (simp add: Cons.IH)
    qed
  qed
qed

text \<open>
  What the loop does to the component is what the events of the stream do, one after
  the other.
\<close>

lemma read_stream_handleData_all:
  "read_stream dstep d0 P handleData_step chunks (Inr app) =
     handleData_all (frame_events dstep d0 P chunks) app"
  by (simp add: read_stream_lines frame_events_lines fold_lines_handleData_all)

text \<open>
  Claim C2. Whatever the bytes of the stream and however they are cut into chunks, one
  byte at a time included, the loop hands on the same events in the same order as for
  the whole stream in one chunk; so does any other use of the parsed values, and
  \<open>handleSubmit\<close> ends in the same state.
\<close>

theorem frames_independent_of_chunking:
  "frame_events dstep d0 P chunks = frame_events dstep d0 P [concat chunks] \<and>
   frame_events dstep d0 P (map (\<lambda>b. [b]) bytes) = frame_events dstep d0 P [bytes] \<and>
   read_stream dstep d0 P h chunks s = read_stream dstep d0 P h [concat chunks] s \<and>
   handleSubmit dstep d0 P N (Body chunks e) app =
     handleSubmit dstep d0 P N (Body [concat chunks] e) app"
proof -
  have c: "concat (map (\<lambda>b. [b]) bytes) = bytes" by (induction bytes) auto
  have "frame_events dstep d0 P (map (\<lambda>b. [b]) bytes) = frame_events dstep d0 P [bytes]"
    using read_stream_whole [of dstep d0 P record_event "map (\<lambda>b. [b]) bytes" "[]"] c
    by (simp add: frame_events_def)
  moreover have "frame_events dstep d0 P chunks = frame_events dstep d0 P [concat chunks]"
    using read_stream_whole [of dstep d0 P record_event chunks "[]"]
    by (simp add: frame_events_def)
  moreover have "handleSubmit dstep d0 P N (Body chunks e) app =
     handleSubmit dstep d0 P N (Body [concat chunks] e) app"
    using read_stream_whole [of dstep d0 P handleData_step chunks "Inr (begin_submit app)"]
    by (simp add: handleSubmit_def split: option.splits)
  ultimately show ?thesis using read_stream_whole [of dstep d0 P h chunks s] by blast
qed

text \<open>
  Claim C2, on two frames cut into three chunks inside the frames. The decoder of the
  example writes one code unit for each byte, as the decoder of the component does on
  ASCII; the parser knows the two texts of the example and throws on any other.
\<close>

theorem frames_independent_of_chunking_witness:
  "frame_events (\<lambda>d b. (d, [char_of (unat b)])) ()
     (map_of
      [(''{\"type\":\"metadata\",\"total_pages\":3}'',
        (JObj [(''type'', JStr ''metadata''), (''total_pages'', JNum (3::nat))])),
       (''{\"type\":\"complete\",\"api_calls_made\":3}'',
        (JObj [(''type'', JStr ''complete''), (''api_calls_made'', JNum (3::nat))]))])
     [map of_char ''data: {\"type\":\"meta'',
      map of_char ''data\",\"total_pages\":3}\<newline>\<newline>data: {\"type\":\"comp'',
      map of_char ''lete\",\"api_calls_made\":3}\<newline>\<newline>'']
   = [(JObj [(''type'', JStr ''metadata''), (''total_pages'', JNum (3::nat))]),
      (JObj [(''type'', JStr ''complete''), (''api_calls_made'', JNum (3::nat))]) :: nat jsval] \<and>
   frame_events (\<lambda>d b. (d, [char_of (unat b)])) ()
     (map_of
      [(''{\"type\":\"metadata\",\"total_pages\":3}'',
        (JObj [(''type'', JStr ''metadata''), (''total_pages'', JNum (3::nat))])),
       (''{\"type\":\"complete\",\"api_calls_made\":3}'',
        (JObj [(''type'', JStr ''complete''), (''api_calls_made'', JNum (3::nat))]))])
     [map of_char ''data: {\"type\":\"metadata\",\"total_pages\":3}\<newline>\<newline>data: {\"type\":\"complete\",\"api_calls_made\":3}\<newline>\<newline>'']
   = [(JObj [(''type'', JStr ''metadata''), (''total_pages'', JNum (3::nat))]),
      (JObj [(''type'', JStr ''complete''), (''api_calls_made'', JNum (3::nat))])]"
proof -
  let ?P = "(map_of
      [(''{\"type\":\"metadata\",\"total_pages\":3}'',
        (JObj [(''type'', JStr ''metadata''), (''total_pages'', JNum (3::nat))])),
       (''{\"type\":\"complete\",\"api_calls_made\":3}'',
        (JObj [(''type'', JStr ''complete''), (''api_calls_made'', JNum (3::nat))]))]) :: string \<Rightarrow> nat jsval option"
  let ?chunks = "[map of_char ''data: {\"type\":\"meta'',
      map of_char ''data\",\"total_pages\":3}\<newline>\<newline>data: {\"type\":\"comp'',
      map of_char ''lete\",\"api_calls_made\":3}\<newline>\<newline>'']"
  let ?whole = "map of_char ''data: {\"type\":\"metadata\",\"total_pages\":3}\<newline>\<newline>data: {\"type\":\"complete\",\"api_calls_made\":3}\<newline>\<newline>''"
  let ?evs = "[(JObj [(''type'', JStr ''metadata''), (''total_pages'', JNum (3::nat))]),
      (JObj [(''type'', JStr ''complete''), (''api_calls_made'', JNum (3::nat))])]"
  have a: "frame_events (\<lambda>d b. (d, [char_of (unat b)])) () ?P [?whole] = ?evs"
    by code_simp
  have w: "concat ?chunks = ?whole"
    by simp
  have "frame_events (\<lambda>d b. (d, [char_of (unat b)])) () ?P ?chunks =
      frame_events (\<lambda>d b. (d, [char_of (unat b)])) () ?P [concat ?chunks]"
    using frames_independent_of_chunking [of "(\<lambda>d b. (d, [char_of (unat b)]))" "()" ?P ?chunks]
    by (rule conjunct1)
  then have b: "frame_events (\<lambda>d b. (d, [char_of (unat b)])) () ?P ?chunks = ?evs"
    using a by (simp only: w)
  show ?thesis by (rule conjI [OF b a])
qed

text \<open>
  Claim C3. A stream of complete lines, one of which carries the prefix and does not
  parse: the events are those of the lines before it followed by those of the lines
  after it, and any use of the parsed values runs over the other lines as if the
  malformed one were not there.
\<close>

theorem malformed_frame_skipped_alone:
  assumes "snd (decode dstep d0 (concat chunks)) =
      concat (map (\<lambda>l. l @ [CHR 0x0A]) (pre @ bad # post))"
    and "\<forall>l\<in>set (pre @ bad # post). CHR 0x0A \<notin> set l"
    and "prefix ''data: '' bad" and "P (drop 6 bad) = None"
  shows "frame_events dstep d0 P chunks =
      List.map_filter (line_event P) pre @ List.map_filter (line_event P) post \<and>
    read_stream dstep d0 P h chunks s = fold (process_line P h) (pre @ post) s"
proof -
  have "split_nl (snd (decode dstep d0 (concat chunks))) = (pre @ bad # post) @ [[]]"
    using split_nl_lines [OF assms(2)] assms(1) by simp
  then have ls: "butlast (split_nl (snd (decode dstep d0 (concat chunks)))) = pre @ bad # post"
    by (simp only: butlast_snoc)
  have bad: "line_event P bad = None"
    using assms(3,4) by (simp add: line_event_def process_line_def)
  have "frame_events dstep d0 P chunks =
      List.map_filter (line_event P) pre @ List.map_filter (line_event P) post"
    by (simp add: frame_events_lines ls List.map_filter_def bad)
  moreover have "read_stream dstep d0 P h chunks s = fold (process_line P h) (pre @ post) s"
    by (simp add: read_stream_lines ls process_line_event [of P h bad] bad)
  ultimately show ?thesis by blast
qed

text \<open>
  Claim C3, on a stream of three lines in two chunks: a \<open>metadata\<close> frame, a frame
  cut short, a \<open>complete\<close> frame. The events are those of the first and the third.
\<close>

theorem malformed_frame_skipped_alone_witness:
  "prefix ''data: '' ''data: {\"type\":\"resu'' \<and>
   (map_of
      [(''{\"type\":\"metadata\",\"total_pages\":3}'',
        (JObj [(''type'', JStr ''metadata''), (''total_pages'', JNum (3::nat))])),
       (''{\"type\":\"complete\",\"api_calls_made\":3}'',
        (JObj [(''type'', JStr ''complete''), (''api_calls_made'', JNum (3::nat))]))]) (drop 6 ''data: {\"type\":\"resu'') = (None :: nat jsval option) \<and>
   frame_events (\<lambda>d b. (d, [char_of (unat b)])) ()
     (map_of
      [(''{\"type\":\"metadata\",\"total_pages\":3}'',
        (JObj [(''type'', JStr ''metadata''), (''total_pages'', JNum (3::nat))])),
       (''{\"type\":\"complete\",\"api_calls_made\":3}'',
        (JObj [(''type'', JStr ''complete''), (''api_calls_made'', JNum (3::nat))]))])
     [map of_char ''data: {\"type\":\"metadata\",\"total_pages\":3}\<newline>'',
      map of_char ''data: {\"type\":\"resu\<newline>data: {\"type\":\"complete\",\"api_calls_made\":3}\<newline>'']
   = [(JObj [(''type'', JStr ''metadata''), (''total_pages'', JNum (3::nat))]),
      (JObj [(''type'', JStr ''complete''), (''api_calls_made'', JNum (3::nat))]) :: nat jsval]"
proof -
  let ?P = "(map_of
      [(''{\"type\":\"metadata\",\"total_pages\":3}'',
        (JObj [(''type'', JStr ''metadata''), (''total_pages'', JNum (3::nat))])),
       (''{\"type\":\"complete\",\"api_calls_made\":3}'',
        (JObj [(''type'', JStr ''complete''), (''api_calls_made'', JNum (3::nat))]))]) :: string \<Rightarrow> nat jsval option"
  let ?chunks = "[map of_char ''data: {\"type\":\"metadata\",\"total_pages\":3}\<newline>'',
      map of_char ''data: {\"type\":\"resu\<newline>data: {\"type\":\"complete\",\"api_calls_made\":3}\<newline>'']"
  let ?l1 = "''data: {\"type\":\"metadata\",\"total_pages\":3}''"
  let ?bad = "''data: {\"type\":\"resu''"
  let ?l3 = "''data: {\"type\":\"complete\",\"api_calls_made\":3}''"
  have h1: "snd (decode (\<lambda>d b. (d, [char_of (unat b)])) () (concat ?chunks)) =
      concat (map (\<lambda>l. l @ [CHR 0x0A]) ([?l1] @ ?bad # [?l3]))"
    by code_simp
  have h2: "\<forall>l\<in>set ([?l1] @ ?bad # [?l3]). CHR 0x0A \<notin> set l"
    by simp
  have h3: "prefix ''data: '' ?bad"
    by simp
  have h4: "?P (drop 6 ?bad) = None"
    by simp
  have e: "List.map_filter (line_event ?P) [?l1] @ List.map_filter (line_event ?P) [?l3] =
      [(JObj [(''type'', JStr ''metadata''), (''total_pages'', JNum (3::nat))]),
       (JObj [(''type'', JStr ''complete''), (''api_calls_made'', JNum (3::nat))])]"
    by code_simp
  from malformed_frame_skipped_alone
    [of "(\<lambda>d b. (d, [char_of (unat b)]))" "()" ?chunks "[?l1]" ?bad "[?l3]" ?P, OF h1 h2 h3 h4]
  have "frame_events (\<lambda>d b. (d, [char_of (unat b)])) () ?P ?chunks =
      List.map_filter (line_event ?P) [?l1] @ List.map_filter (line_event ?P) [?l3]"
    by (rule conjunct1)
  from this e have "frame_events (\<lambda>d b. (d, [char_of (unat b)])) () ?P ?chunks =
      [(JObj [(''type'', JStr ''metadata''), (''total_pages'', JNum (3::nat))]),
       (JObj [(''type'', JStr ''complete''), (''api_calls_made'', JNum (3::nat))])]"
    by (rule trans)
  with h3 h4 show ?thesis by blast
qed

subsection \<open>Events and navigation\<close>

lemma handleData_result:
  "streamingState app = Some st \<Longrightarrow> get data ''type'' = JStr ''result'' \<Longrightarrow>
   handleData data app =
     Inr (app\<lparr>streamingState :=
       Some (st\<lparr>results := results st @ [newResult data], processing_page := JUndefined\<rparr>)\<rparr>)"
  by (auto simp: handleData_def updateStreamingState_def)

lemma handleData_Some:
  "streamingState app = Some st \<Longrightarrow>
   \<exists>app' st'. handleData data app = Inr app' \<and> streamingState app' = Some st' \<and>
     currentPageIndex app' = currentPageIndex app \<and>
     (results st' = results st \<or> results st' = results st @ [newResult data]) \<and>
     (complete st \<longrightarrow> complete st')"
  by (auto simp: handleData_def updateStreamingState_def)



text \<open>
  Without a streaming state, after a file was chosen while the stream is read, a
  \<open>result\<close> event has nothing to append to.
\<close>

lemma result_event_without_state:
  "streamingState app = None \<Longrightarrow> get data ''type'' = JStr ''result'' \<Longrightarrow>
   handleData data app = Inl TypeError"
  by (auto simp: handleData_def updateStreamingState_def)



text \<open>
  Claim C7. An \<open>error\<close> event stores its message and ends the loading; the streaming
  state, with \<open>total_pages\<close> and every result in its place, and the selected index
  are as before.
\<close>

theorem error_event_keeps_results:
  assumes "get data ''type'' = JStr ''error''"
  shows "\<exists>app'. handleData data app = Inr app' \<and>
      error app' = get data ''message'' \<and>
      streamingState app' = streamingState app \<and>
      currentPageIndex app' = currentPageIndex app \<and>
      app' = app\<lparr>error := get data ''message'', loading := False\<rparr>"
  using assms by (auto simp: handleData_def)

text \<open>
  Claim C7, on a state with one result.
\<close>

theorem error_event_keeps_results_witness:
  "get (JObj [(''type'', JStr ''error''), (''message'', JStr ''PDF could not be read'')] :: nat jsval) ''type'' = JStr ''error'' \<and>
   handleData (JObj [(''type'', JStr ''error''), (''message'', JStr ''PDF could not be read'')] :: nat jsval)
     \<lparr>pdf_file = Some \<lparr>name = ''form.pdf'', type = ''application/pdf''\<rparr>, loading = True,
      streamingState = Some \<lparr>total_pages = JNum (2::nat),
        results = [\<lparr>page_number = JNum 1, ocr_text = JStr ''Name: Ada'', status = JStr ''success'',
          result_error = JUndefined, page_image = JUndefined\<rparr>],
        processing_page = JNum 2, api_calls_made = JUndefined, complete = False\<rparr>,
      error = JStr [], dragActive = False, currentPageIndex = 0\<rparr> =
   Inr
     \<lparr>pdf_file = Some \<lparr>name = ''form.pdf'', type = ''application/pdf''\<rparr>, loading = False,
      streamingState = Some \<lparr>total_pages = JNum (2::nat),
        results = [\<lparr>page_number = JNum 1, ocr_text = JStr ''Name: Ada'', status = JStr ''success'',
          result_error = JUndefined, page_image = JUndefined\<rparr>],
        processing_page = JNum 2, api_calls_made = JUndefined, complete = False\<rparr>,
      error = JStr ''PDF could not be read'', dragActive = False, currentPageIndex = 0\<rparr>"
  using error_event_keeps_results
    [of "(JObj [(''type'', JStr ''error''), (''message'', JStr ''PDF could not be read'')] :: nat jsval)"
        "\<lparr>pdf_file = Some \<lparr>name = ''form.pdf'', type = ''application/pdf''\<rparr>, loading = True,
      streamingState = Some \<lparr>total_pages = JNum (2::nat),
        results = [\<lparr>page_number = JNum 1, ocr_text = JStr ''Name: Ada'', status = JStr ''success'',
          result_error = JUndefined, page_image = JUndefined\<rparr>],
        processing_page = JNum 2, api_calls_made = JUndefined, complete = False\<rparr>,
      error = JStr [], dragActive = False, currentPageIndex = 0\<rparr>"]
  by auto

text \<open>
  Claim C10. No event removes, reorders or replaces a result: the results before are a
  prefix of the results after. A \<open>result\<close> event adds its outcome at the end whatever
  its page number, so the number of entries with that page number grows by one, also
  when the page number is already there.
\<close>

theorem results_append_only:
  assumes "streamingState app = Some st"
  shows "\<exists>app' st'. handleData data app = Inr app' \<and> streamingState app' = Some st' \<and>
      prefix (results st) (results st') \<and>
      (get data ''type'' = JStr ''result'' \<longrightarrow>
         results st' = results st @ [newResult data] \<and>
         length (filter (\<lambda>r. page_number r = get data ''page_number'') (results st')) =
           Suc (length (filter (\<lambda>r. page_number r = get data ''page_number'') (results st))))"
proof -
  from handleData_Some [OF assms, of data] obtain app' st'
    where h: "handleData data app = Inr app'" "streamingState app' = Some st'"
      "results st' = results st \<or> results st' = results st @ [newResult data]" by blast
  then have p: "prefix (results st) (results st')" by auto
  have "get data ''type'' = JStr ''result'' \<Longrightarrow> results st' = results st @ [newResult data]"
    using handleData_result [OF assms, of data] h by auto
  moreover have "page_number (newResult data) = get data ''page_number''"
    by (simp add: newResult_def)
  ultimately show ?thesis using h p by auto
qed

text \<open>
  Claim C10, on a \<open>result\<close> event for page 1 when the results have page 1 already:
  both entries are there afterwards.
\<close>

theorem results_append_only_witness:
  "streamingState
     \<lparr>pdf_file = Some \<lparr>name = ''form.pdf'', type = ''application/pdf''\<rparr>, loading = True,
      streamingState = Some \<lparr>total_pages = JNum (2::nat),
        results = [\<lparr>page_number = JNum 1, ocr_text = JStr ''Name: Ada'', status = JStr ''success'',
          result_error = JUndefined, page_image = JUndefined\<rparr>],
        processing_page = JNum 2, api_calls_made = JUndefined, complete = False\<rparr>,
      error = JStr [], dragActive = False, currentPageIndex = 0\<rparr> =
   Some \<lparr>total_pages = JNum (2::nat),
        results = [\<lparr>page_number = JNum 1, ocr_text = JStr ''Name: Ada'', status = JStr ''success'',
          result_error = JUndefined, page_image = JUndefined\<rparr>],
        processing_page = JNum 2, api_calls_made = JUndefined, complete = False\<rparr> \<and>
   get (JObj [(''type'', JStr ''result''), (''page_number'', JNum (1::nat)), (''status'', JStr ''success''), (''ocr_text'', JStr ''Name: Bob'')]) ''type'' = JStr ''result'' \<and>
   handleData (JObj [(''type'', JStr ''result''), (''page_number'', JNum (1::nat)), (''status'', JStr ''success''), (''ocr_text'', JStr ''Name: Bob'')])
     \<lparr>pdf_file = Some \<lparr>name = ''form.pdf'', type = ''application/pdf''\<rparr>, loading = True,
      streamingState = Some \<lparr>total_pages = JNum (2::nat),
        results = [\<lparr>page_number = JNum 1, ocr_text = JStr ''Name: Ada'', status = JStr ''success'',
          result_error = JUndefined, page_image = JUndefined\<rparr>],
        processing_page = JNum 2, api_calls_made = JUndefined, complete = False\<rparr>,
      error = JStr [], dragActive = False, currentPageIndex = 0\<rparr> =
   Inr
     \<lparr>pdf_file = Some \<lparr>name = ''form.pdf'', type = ''application/pdf''\<rparr>, loading = True,
      streamingState = Some \<lparr>total_pages = JNum (2::nat),
        results = [\<lparr>page_number = JNum 1, ocr_text = JStr ''Name: Ada'', status = JStr ''success'',
          result_error = JUndefined, page_image = JUndefined\<rparr>,
         \<lparr>page_number = JNum 1, ocr_text = JStr ''Name: Bob'', status = JStr ''success'',
          result_error = JUndefined, page_image = JUndefined\<rparr>],
        processing_page = JUndefined, api_calls_made = JUndefined, complete = False\<rparr>,
      error = JStr [], dragActive = False, currentPageIndex = 0\<rparr>"
  using results_append_only
    [of "\<lparr>pdf_file = Some \<lparr>name = ''form.pdf'', type = ''application/pdf''\<rparr>, loading = True,
      streamingState = Some \<lparr>total_pages = JNum (2::nat),
        results = [\<lparr>page_number = JNum 1, ocr_text = JStr ''Name: Ada'', status = JStr ''success'',
          result_error = JUndefined, page_image = JUndefined\<rparr>],
        processing_page = JNum 2, api_calls_made = JUndefined, complete = False\<rparr>,
      error = JStr [], dragActive = False, currentPageIndex = 0\<rparr>"
        "\<lparr>total_pages = JNum (2::nat),
        results = [\<lparr>page_number = JNum 1, ocr_text = JStr ''Name: Ada'', status = JStr ''success'',
          result_error = JUndefined, page_image = JUndefined\<rparr>],
        processing_page = JNum 2, api_calls_made = JUndefined, complete = False\<rparr>"
        "(JObj [(''type'', JStr ''result''), (''page_number'', JNum (1::nat)), (''status'', JStr ''success''), (''ocr_text'', JStr ''Name: Bob'')])"]
  by (simp add: handleData_def updateStreamingState_def newResult_def)

lemma handleData_all_complete:
  "streamingState app = Some st \<Longrightarrow> complete st \<Longrightarrow>
   \<exists>app' st'. handleData_all evs app = Inr app' \<and> streamingState app' = Some st' \<and> complete st'"
proof (induction evs arbitrary: app st)
  case Nil
  then show ?case by simp
next
  case (Cons ev evs)
  from handleData_Some [OF Cons.prems(1), of ev] Cons.prems(2) obtain app1 st1
    where "handleData ev app = Inr app1" "streamingState app1 = Some st1" "complete st1" by blast
  with Cons.IH [of app1 st1] show ?case by simp
qed

text \<open>
  Claim C6, amended. A \<open>complete\<close> event sets the flag, stores \<open>api_calls_made\<close> and
  ends the loading, and no sequence of later events resets the flag. Nothing tests the
  flag: a later \<open>result\<close> event still appends its outcome, a later \<open>metadata\<close> event
  still sets \<open>total_pages\<close>.
\<close>

theorem complete_flag_stays_set:
  assumes "streamingState app = Some st" and "get data ''type'' = JStr ''complete''"
  shows "\<exists>app1 st1. handleData data app = Inr app1 \<and> streamingState app1 = Some st1 \<and>
      st1 = st\<lparr>complete := True, api_calls_made := get data ''api_calls_made''\<rparr> \<and>
      app1 = app\<lparr>streamingState := Some st1, loading := False\<rparr> \<and>
      complete st1 \<and>
      (\<forall>evs. \<exists>app' st'. handleData_all evs app1 = Inr app' \<and>
         streamingState app' = Some st' \<and> complete st') \<and>
      (\<forall>ev. get ev ''type'' = JStr ''result'' \<longrightarrow>
         (\<exists>app2 st2. handleData ev app1 = Inr app2 \<and> streamingState app2 = Some st2 \<and>
            results st2 = results st @ [newResult ev])) \<and>
      (\<forall>ev. get ev ''type'' = JStr ''metadata'' \<longrightarrow>
         (\<exists>app2 st2. handleData ev app1 = Inr app2 \<and> streamingState app2 = Some st2 \<and>
            total_pages st2 = get ev ''total_pages''))"
proof -
  let ?st1 = "st\<lparr>complete := True, api_calls_made := get data ''api_calls_made''\<rparr>"
  let ?app1 = "app\<lparr>streamingState := Some ?st1, loading := False\<rparr>"
  have h: "handleData data app = Inr ?app1"
    using assms by (auto simp: handleData_def updateStreamingState_def)
  have s1: "streamingState ?app1 = Some ?st1" by simp
  have c1: "complete ?st1" by simp
  have a: "\<exists>app' st'. handleData_all evs ?app1 = Inr app' \<and>
      streamingState app' = Some st' \<and> complete st'" for evs
    by (rule handleData_all_complete [OF s1 c1])
  have r: "\<exists>app2 st2. handleData ev ?app1 = Inr app2 \<and> streamingState app2 = Some st2 \<and>
      results st2 = results st @ [newResult ev]"
    if "get ev ''type'' = JStr ''result''" for ev
    using handleData_result [OF s1 that] by simp
  have m: "\<exists>app2 st2. handleData ev ?app1 = Inr app2 \<and> streamingState app2 = Some st2 \<and>
      total_pages st2 = get ev ''total_pages''"
    if "get ev ''type'' = JStr ''metadata''" for ev
    using that by (auto simp: handleData_def updateStreamingState_def)
  from h s1 c1 a r m show ?thesis by blast
qed

text \<open>
  Claim C6 as it is written fails: after a \<open>complete\<close> event, a \<open>result\<close> event is
  appended to the results as before.
\<close>

theorem result_after_complete_counterexample:
  "handleData (JObj [(''type'', JStr ''complete''), (''api_calls_made'', JNum (2::nat))])
     \<lparr>pdf_file = Some \<lparr>name = ''form.pdf'', type = ''application/pdf''\<rparr>, loading = True,
      streamingState = Some \<lparr>total_pages = JNum (2::nat),
        results = [\<lparr>page_number = JNum 1, ocr_text = JStr ''Name: Ada'', status = JStr ''success'',
          result_error = JUndefined, page_image = JUndefined\<rparr>],
        processing_page = JNum 2, api_calls_made = JUndefined, complete = False\<rparr>,
      error = JStr [], dragActive = False, currentPageIndex = 0\<rparr> =
   Inr
     \<lparr>pdf_file = Some \<lparr>name = ''form.pdf'', type = ''application/pdf''\<rparr>, loading = False,
      streamingState = Some \<lparr>total_pages = JNum (2::nat),
        results = [\<lparr>page_number = JNum 1, ocr_text = JStr ''Name: Ada'', status = JStr ''success'',
          result_error = JUndefined, page_image = JUndefined\<rparr>],
        processing_page = JNum 2, api_calls_made = JNum 2, complete = True\<rparr>,
      error = JStr [], dragActive = False, currentPageIndex = 0\<rparr> \<and>
   handleData (JObj [(''type'', JStr ''result''), (''page_number'', JNum (2::nat)), (''status'', JStr ''success''), (''ocr_text'', JStr ''Date: today'')])
     \<lparr>pdf_file = Some \<lparr>name = ''form.pdf'', type = ''application/pdf''\<rparr>, loading = False,
      streamingState = Some \<lparr>total_pages = JNum (2::nat),
        results = [\<lparr>page_number = JNum 1, ocr_text = JStr ''Name: Ada'', status = JStr ''success'',
          result_error = JUndefined, page_image = JUndefined\<rparr>],
        processing_page = JNum 2, api_calls_made = JNum 2, complete = True\<rparr>,
      error = JStr [], dragActive = False, currentPageIndex = 0\<rparr> =
   Inr
     \<lparr>pdf_file = Some \<lparr>name = ''form.pdf'', type = ''application/pdf''\<rparr>, loading = False,
      streamingState = Some \<lparr>total_pages = JNum (2::nat),
        results = [\<lparr>page_number = JNum 1, ocr_text = JStr ''Name: Ada'', status = JStr ''success'',
          result_error = JUndefined, page_image = JUndefined\<rparr>,
         \<lparr>page_number = JNum 2, ocr_text = JStr ''Date: today'', status = JStr ''success'',
          result_error = JUndefined, page_image = JUndefined\<rparr>],
        processing_page = JUndefined, api_calls_made = JNum 2, complete = True\<rparr>,
      error = JStr [], dragActive = False, currentPageIndex = 0\<rparr>"
  by (simp add: handleData_def updateStreamingState_def newResult_def)

text \<open>
  Claim C6, on a \<open>complete\<close> event followed by a \<open>result\<close> and a \<open>metadata\<close>
  event: the flag is still set.
\<close>

theorem complete_flag_stays_set_witness:
  "streamingState
     \<lparr>pdf_file = Some \<lparr>name = ''form.pdf'', type = ''application/pdf''\<rparr>, loading = True,
      streamingState = Some \<lparr>total_pages = JNum (2::nat),
        results = [\<lparr>page_number = JNum 1, ocr_text = JStr ''Name: Ada'', status = JStr ''success'',
          result_error = JUndefined, page_image = JUndefined\<rparr>],
        processing_page = JNum 2, api_calls_made = JUndefined, complete = False\<rparr>,
      error = JStr [], dragActive = False, currentPageIndex = 0\<rparr> =
   Some \<lparr>total_pages = JNum (2::nat),
        results = [\<lparr>page_number = JNum 1, ocr_text = JStr ''Name: Ada'', status = JStr ''success'',
          result_error = JUndefined, page_image = JUndefined\<rparr>],
        processing_page = JNum 2, api_calls_made = JUndefined, complete = False\<rparr> \<and>
   get (JObj [(''type'', JStr ''complete''), (''api_calls_made'', JNum (2::nat))]) ''type'' = JStr ''complete'' \<and>
   handleData_all
     [(JObj [(''type'', JStr ''complete''), (''api_calls_made'', JNum (2::nat))]),
      (JObj [(''type'', JStr ''result''), (''page_number'', JNum (2::nat)), (''status'', JStr ''success''), (''ocr_text'', JStr ''Date: today'')]),
      (JObj [(''type'', JStr ''metadata''), (''total_pages'', JNum (3::nat))])]
     \<lparr>pdf_file = Some \<lparr>name = ''form.pdf'', type = ''application/pdf''\<rparr>, loading = True,
      streamingState = Some \<lparr>total_pages = JNum (2::nat),
        results = [\<lparr>page_number = JNum 1, ocr_text = JStr ''Name: Ada'', status = JStr ''success'',
          result_error = JUndefined, page_image = JUndefined\<rparr>],
        processing_page = JNum 2, api_calls_made = JUndefined, complete = False\<rparr>,
      error = JStr [], dragActive = False, currentPageIndex = 0\<rparr> =
   Inr
     \<lparr>pdf_file = Some \<lparr>name = ''form.pdf'', type = ''application/pdf''\<rparr>, loading = False,
      streamingState = Some \<lparr>total_pages = JNum (3::nat),
        results = [\<lparr>page_number = JNum 1, ocr_text = JStr ''Name: Ada'', status = JStr ''success'',
          result_error = JUndefined, page_image = JUndefined\<rparr>,
         \<lparr>page_number = JNum 2, ocr_text = JStr ''Date: today'', status = JStr ''success'',
          result_error = JUndefined, page_image = JUndefined\<rparr>],
        processing_page = JUndefined, api_calls_made = JNum 2, complete = True\<rparr>,
      error = JStr [], dragActive = False, currentPageIndex = 0\<rparr>"
  using complete_flag_stays_set
    [of "\<lparr>pdf_file = Some \<lparr>name = ''form.pdf'', type = ''application/pdf''\<rparr>, loading = True,
      streamingState = Some \<lparr>total_pages = JNum (2::nat),
        results = [\<lparr>page_number = JNum 1, ocr_text = JStr ''Name: Ada'', status = JStr ''success'',
          result_error = JUndefined, page_image = JUndefined\<rparr>],
        processing_page = JNum 2, api_calls_made = JUndefined, complete = False\<rparr>,
      error = JStr [], dragActive = False, currentPageIndex = 0\<rparr>"
        "\<lparr>total_pages = JNum (2::nat),
        results = [\<lparr>page_number = JNum 1, ocr_text = JStr ''Name: Ada'', status = JStr ''success'',
          result_error = JUndefined, page_image = JUndefined\<rparr>],
        processing_page = JNum 2, api_calls_made = JUndefined, complete = False\<rparr>"
        "(JObj [(''type'', JStr ''complete''), (''api_calls_made'', JNum (2::nat))])"]
  by (simp add: handleData_def updateStreamingState_def newResult_def)

text \<open>
  Claim C1, amended. From an index inside the results, \<open>handleNextPage\<close> and
  \<open>handlePrevPage\<close> leave the index inside and the results alone; the first does
  nothing at the last index, the second nothing at index 0. \<open>handlePageClick\<close> stores
  the index it is given, which is inside the results when the index given is.
\<close>

theorem navigation_index_in_range:
  assumes "streamingState app = Some st"
    and "0 \<le> currentPageIndex app" and "currentPageIndex app < int (length (results st))"
  shows "index_ok (handleNextPage app) \<and> index_ok (handlePrevPage app) \<and>
     streamingState (handleNextPage app) = Some st \<and>
     streamingState (handlePrevPage app) = Some st \<and>
     (currentPageIndex app = 0 \<longrightarrow> handlePrevPage app = app) \<and>
     (currentPageIndex app = int (length (results st)) - 1 \<longrightarrow> handleNextPage app = app) \<and>
     handlePageClick i app = app\<lparr>currentPageIndex := i\<rparr> \<and>
     (0 \<le> i \<and> i < int (length (results st)) \<longrightarrow> index_ok (handlePageClick i app))"
  using assms
  by (auto simp: handleNextPage_def handlePrevPage_def handlePageClick_def index_ok_def)

text \<open>
  Claim C1 as it is written fails: with one result, \<open>handlePageClick 5\<close> is not
  rejected. It changes the state, and the index it stores is outside the results.
\<close>

theorem page_click_out_of_range_counterexample:
  "currentPageIndex (handlePageClick 5
     \<lparr>pdf_file = Some \<lparr>name = ''form.pdf'', type = ''application/pdf''\<rparr>, loading = True,
      streamingState = Some \<lparr>total_pages = JNum (2::nat),
        results = [\<lparr>page_number = JNum 1, ocr_text = JStr ''Name: Ada'', status = JStr ''success'',
          result_error = JUndefined, page_image = JUndefined\<rparr>],
        processing_page = JNum 2, api_calls_made = JUndefined, complete = False\<rparr>,
      error = JStr [], dragActive = False, currentPageIndex = 0\<rparr>) = 5 \<and>
   handlePageClick 5
     \<lparr>pdf_file = Some \<lparr>name = ''form.pdf'', type = ''application/pdf''\<rparr>, loading = True,
      streamingState = Some \<lparr>total_pages = JNum (2::nat),
        results = [\<lparr>page_number = JNum 1, ocr_text = JStr ''Name: Ada'', status = JStr ''success'',
          result_error = JUndefined, page_image = JUndefined\<rparr>],
        processing_page = JNum 2, api_calls_made = JUndefined, complete = False\<rparr>,
      error = JStr [], dragActive = False, currentPageIndex = 0\<rparr> \<noteq>
     \<lparr>pdf_file = Some \<lparr>name = ''form.pdf'', type = ''application/pdf''\<rparr>, loading = True,
      streamingState = Some \<lparr>total_pages = JNum (2::nat),
        results = [\<lparr>page_number = JNum 1, ocr_text = JStr ''Name: Ada'', status = JStr ''success'',
          result_error = JUndefined, page_image = JUndefined\<rparr>],
        processing_page = JNum 2, api_calls_made = JUndefined, complete = False\<rparr>,
      error = JStr [], dragActive = False, currentPageIndex = 0\<rparr> \<and>
   \<not> index_ok (handlePageClick 5
     \<lparr>pdf_file = Some \<lparr>name = ''form.pdf'', type = ''application/pdf''\<rparr>, loading = True,
      streamingState = Some \<lparr>total_pages = JNum (2::nat),
        results = [\<lparr>page_number = JNum 1, ocr_text = JStr ''Name: Ada'', status = JStr ''success'',
          result_error = JUndefined, page_image = JUndefined\<rparr>],
        processing_page = JNum 2, api_calls_made = JUndefined, complete = False\<rparr>,
      error = JStr [], dragActive = False, currentPageIndex = 0\<rparr>)"
  by (simp add: handlePageClick_def index_ok_def)

text \<open>
  Claim C1, at a state with one result and index 0: both buttons do nothing there, and a
  click on the only thumbnail keeps the index inside. With two results the next page
  is index 1.
\<close>

theorem navigation_index_in_range_witness:
  "streamingState
     \<lparr>pdf_file = Some \<lparr>name = ''form.pdf'', type = ''application/pdf''\<rparr>, loading = True,
      streamingState = Some \<lparr>total_pages = JNum (2::nat),
        results = [\<lparr>page_number = JNum 1, ocr_text = JStr ''Name: Ada'', status = JStr ''success'',
          result_error = JUndefined, page_image = JUndefined\<rparr>],
        processing_page = JNum 2, api_calls_made = JUndefined, complete = False\<rparr>,
      error = JStr [], dragActive = False, currentPageIndex = 0\<rparr> =
   Some \<lparr>total_pages = JNum (2::nat),
        results = [\<lparr>page_number = JNum 1, ocr_text = JStr ''Name: Ada'', status = JStr ''success'',
          result_error = JUndefined, page_image = JUndefined\<rparr>],
        processing_page = JNum 2, api_calls_made = JUndefined, complete = False\<rparr> \<and>
   0 \<le> currentPageIndex
     \<lparr>pdf_file = Some \<lparr>name = ''form.pdf'', type = ''application/pdf''\<rparr>, loading = True,
      streamingState = Some \<lparr>total_pages = JNum (2::nat),
        results = [\<lparr>page_number = JNum 1, ocr_text = JStr ''Name: Ada'', status = JStr ''success'',
          result_error = JUndefined, page_image = JUndefined\<rparr>],
        processing_page = JNum 2, api_calls_made = JUndefined, complete = False\<rparr>,
      error = JStr [], dragActive = False, currentPageIndex = 0\<rparr> \<and>
   currentPageIndex
     \<lparr>pdf_file = Some \<lparr>name = ''form.pdf'', type = ''application/pdf''\<rparr>, loading = True,
      streamingState = Some \<lparr>total_pages = JNum (2::nat),
        results = [\<lparr>page_number = JNum 1, ocr_text = JStr ''Name: Ada'', status = JStr ''success'',
          result_error = JUndefined, page_image = JUndefined\<rparr>],
        processing_page = JNum 2, api_calls_made = JUndefined, complete = False\<rparr>,
      error = JStr [], dragActive = False, currentPageIndex = 0\<rparr>
   < int (length (results \<lparr>total_pages = JNum (2::nat),
        results = [\<lparr>page_number = JNum 1, ocr_text = JStr ''Name: Ada'', status = JStr ''success'',
          result_error = JUndefined, page_image = JUndefined\<rparr>],
        processing_page = JNum 2, api_calls_made = JUndefined, complete = False\<rparr>)) \<and>
   handleNextPage
     \<lparr>pdf_file = Some \<lparr>name = ''form.pdf'', type = ''application/pdf''\<rparr>, loading = True,
      streamingState = Some \<lparr>total_pages = JNum (2::nat),
        results = [\<lparr>page_number = JNum 1, ocr_text = JStr ''Name: Ada'', status = JStr ''success'',
          result_error = JUndefined, page_image = JUndefined\<rparr>],
        processing_page = JNum 2, api_calls_made = JUndefined, complete = False\<rparr>,
      error = JStr [], dragActive = False, currentPageIndex = 0\<rparr> =
     \<lparr>pdf_file = Some \<lparr>name = ''form.pdf'', type = ''application/pdf''\<rparr>, loading = True,
      streamingState = Some \<lparr>total_pages = JNum (2::nat),
        results = [\<lparr>page_number = JNum 1, ocr_text = JStr ''Name: Ada'', status = JStr ''success'',
          result_error = JUndefined, page_image = JUndefined\<rparr>],
        processing_page = JNum 2, api_calls_made = JUndefined, complete = False\<rparr>,
      error = JStr [], dragActive = False, currentPageIndex = 0\<rparr> \<and>
   handlePrevPage
     \<lparr>pdf_file = Some \<lparr>name = ''form.pdf'', type = ''application/pdf''\<rparr>, loading = True,
      streamingState = Some \<lparr>total_pages = JNum (2::nat),
        results = [\<lparr>page_number = JNum 1, ocr_text = JStr ''Name: Ada'', status = JStr ''success'',
          result_error = JUndefined, page_image = JUndefined\<rparr>],
        processing_page = JNum 2, api_calls_made = JUndefined, complete = False\<rparr>,
      error = JStr [], dragActive = False, currentPageIndex = 0\<rparr> =
     \<lparr>pdf_file = Some \<lparr>name = ''form.pdf'', type = ''application/pdf''\<rparr>, loading = True,
      streamingState = Some \<lparr>total_pages = JNum (2::nat),
        results = [\<lparr>page_number = JNum 1, ocr_text = JStr ''Name: Ada'', status = JStr ''success'',
          result_error = JUndefined, page_image = JUndefined\<rparr>],
        processing_page = JNum 2, api_calls_made = JUndefined, complete = False\<rparr>,
      error = JStr [], dragActive = False, currentPageIndex = 0\<rparr> \<and>
   index_ok (handlePageClick 0
     \<lparr>pdf_file = Some \<lparr>name = ''form.pdf'', type = ''application/pdf''\<rparr>, loading = True,
      streamingState = Some \<lparr>total_pages = JNum (2::nat),
        results = [\<lparr>page_number = JNum 1, ocr_text = JStr ''Name: Ada'', status = JStr ''success'',
          result_error = JUndefined, page_image = JUndefined\<rparr>],
        processing_page = JNum 2, api_calls_made = JUndefined, complete = False\<rparr>,
      error = JStr [], dragActive = False, currentPageIndex = 0\<rparr>) \<and>
   currentPageIndex (handleNextPage
     \<lparr>pdf_file = Some \<lparr>name = ''form.pdf'', type = ''application/pdf''\<rparr>, loading = True,
      streamingState = Some \<lparr>total_pages = JNum (2::nat),
        results = [\<lparr>page_number = JNum 1, ocr_text = JStr ''Name: Ada'', status = JStr ''success'',
          result_error = JUndefined, page_image = JUndefined\<rparr>,
         \<lparr>page_number = JNum 2, ocr_text = JStr ''Date: today'', status = JStr ''success'',
          result_error = JUndefined, page_image = JUndefined\<rparr>],
        processing_page = JUndefined, api_calls_made = JUndefined, complete = False\<rparr>,
      error = JStr [], dragActive = False, currentPageIndex = 0\<rparr>) = 1"
  using navigation_index_in_range
    [of "\<lparr>pdf_file = Some \<lparr>name = ''form.pdf'', type = ''application/pdf''\<rparr>, loading = True,
      streamingState = Some \<lparr>total_pages = JNum (2::nat),
        results = [\<lparr>page_number = JNum 1, ocr_text = JStr ''Name: Ada'', status = JStr ''success'',
          result_error = JUndefined, page_image = JUndefined\<rparr>],
        processing_page = JNum 2, api_calls_made = JUndefined, complete = False\<rparr>,
      error = JStr [], dragActive = False, currentPageIndex = 0\<rparr>"
        "\<lparr>total_pages = JNum (2::nat),
        results = [\<lparr>page_number = JNum 1, ocr_text = JStr ''Name: Ada'', status = JStr ''success'',
          result_error = JUndefined, page_image = JUndefined\<rparr>],
        processing_page = JNum 2, api_calls_made = JUndefined, complete = False\<rparr>" 0]
  by (simp add: handleNextPage_def handlePrevPage_def handlePageClick_def index_ok_def)

subsection \<open>Submitting again\<close>

lemma handleData_begin_submit:
  "handleData data app = Inr app' \<Longrightarrow> begin_submit app' = begin_submit app"
  by (auto simp: handleData_def updateStreamingState_def begin_submit_def
      split: if_splits option.splits)

lemma fold_lines_begin_submit:
  "streamingState app = Some st \<Longrightarrow>
   \<exists>app' st'. fold (process_line P handleData_step) ls (Inr app) = Inr app' \<and>
     streamingState app' = Some st' \<and> begin_submit app' = begin_submit app"
proof (induction ls arbitrary: app st)
  case Nil
  then show ?case by simp
next
  case (Cons l ls)
  show ?case
  proof (cases "line_event P l")
    case None
    then have "process_line P handleData_step l (Inr app) = Inr app"
      by (simp add: process_line_event)
    with Cons show ?thesis by simp
  next
    case (Some data)
    from handleData_Some [OF Cons.prems, of data] obtain app1 st1
      where h: "handleData data app = Inr app1" "streamingState app1 = Some st1" by blast
    have "process_line P handleData_step l (Inr app) = Inr app1"
      by (simp add: process_line_event Some handleData_step_def h)
    moreover have "begin_submit app1 = begin_submit app"
      using h(1) by (rule handleData_begin_submit)
    ultimately show ?thesis using Cons.IH [OF h(2)] by simp
  qed
qed

lemma begin_submit_twice:
  "begin_submit (app\<lparr>loading := l\<rparr>) = begin_submit app"
  "begin_submit (catch_err msg app) = begin_submit app"
  "begin_submit (begin_submit app) = begin_submit app"
  "pdf_file (begin_submit app) = pdf_file app"
  "pdf_file (catch_err msg app) = pdf_file app"
  by (simp_all add: begin_submit_def catch_err_def)

lemma pdf_file_of_begin: "begin_submit a = begin_submit b \<Longrightarrow> pdf_file a = pdf_file b"
  using begin_submit_twice(4) by metis

lemma handleSubmit_again:
  "\<exists>app1. handleSubmit dstep d0 P N resp app = Inr app1 \<and>
     handleSubmit dstep d0 P N resp app1 = Inr app1"
proof (cases "pdf_file app")
  case None
  then show ?thesis by (simp add: handleSubmit_def)
next
  case (Some f)
  show ?thesis
  proof (cases resp)
    case (Body chunks e)
    let ?ls = "butlast (split_nl (snd (decode dstep d0 (concat chunks))))"
    have "\<exists>st0. streamingState (begin_submit app) = Some st0" by (simp add: begin_submit_def)
    then obtain st0 where "streamingState (begin_submit app) = Some st0" ..
    from fold_lines_begin_submit [OF this, of P ?ls] obtain app2
      where f: "fold (process_line P handleData_step) ?ls (Inr (begin_submit app)) = Inr app2"
        and b: "begin_submit app2 = begin_submit app"
      by (auto simp: begin_submit_twice)
    define app1 where "app1 = (case e of Done \<Rightarrow> app2\<lparr>loading := False\<rparr>
       | ReadRejected msg \<Rightarrow> catch_err msg app2)"
    have r: "handleSubmit dstep d0 P N resp app' = Inr app1"
      if "pdf_file app' = Some f" "begin_submit app' = begin_submit app" for app'
      using that f by (simp add: handleSubmit_def Body read_stream_lines app1_def split: stream_end.splits)
    have b1: "begin_submit app1 = begin_submit app"
      using b by (simp add: app1_def begin_submit_twice split: stream_end.splits)
    then have "pdf_file app1 = Some f" using pdf_file_of_begin Some by metis
    with r [of app1] r [of app] b1 Some show ?thesis by simp
  qed (simp_all add: handleSubmit_def Some begin_submit_twice)
qed

text \<open>
  Claim C4, amended. A \<open>metadata\<close> event sets \<open>total_pages\<close> and leaves the results
  and every other field as they are. The results are emptied by the reset at the start
  of \<open>handleSubmit\<close>, so that submitting the same stream again from the state the
  first submission ended in gives that state again, with nothing duplicated.
\<close>

theorem metadata_sets_total_pages_only:
  assumes "streamingState app = Some st" and "get data ''type'' = JStr ''metadata''"
  shows "handleData data app =
      Inr (app\<lparr>streamingState := Some (st\<lparr>total_pages := get data ''total_pages''\<rparr>)\<rparr>) \<and>
    (\<exists>st0. streamingState (begin_submit app) = Some st0 \<and> results st0 = []) \<and>
    (\<exists>app1. handleSubmit dstep d0 P N resp app = Inr app1 \<and>
       handleSubmit dstep d0 P N resp app1 = Inr app1)"
proof -
  have "handleData data app =
      Inr (app\<lparr>streamingState := Some (st\<lparr>total_pages := get data ''total_pages''\<rparr>)\<rparr>)"
    using assms by (auto simp: handleData_def updateStreamingState_def)
  moreover have "\<exists>st0. streamingState (begin_submit app) = Some st0 \<and> results st0 = []"
    by (simp add: begin_submit_def)
  ultimately show ?thesis using handleSubmit_again [of dstep d0 P N resp app] by blast
qed

text \<open>
  Claim C4 as it is written fails: a \<open>metadata\<close> event on a state with one result sets
  \<open>total_pages\<close> to 3 and the result is still there.
\<close>

theorem metadata_keeps_results_counterexample:
  "handleData (JObj [(''type'', JStr ''metadata''), (''total_pages'', JNum (3::nat))])
     \<lparr>pdf_file = Some \<lparr>name = ''form.pdf'', type = ''application/pdf''\<rparr>, loading = True,
      streamingState = Some \<lparr>total_pages = JNum (2::nat),
        results = [\<lparr>page_number = JNum 1, ocr_text = JStr ''Name: Ada'', status = JStr ''success'',
          result_error = JUndefined, page_image = JUndefined\<rparr>],
        processing_page = JNum 2, api_calls_made = JUndefined, complete = False\<rparr>,
      error = JStr [], dragActive = False, currentPageIndex = 0\<rparr> =
   Inr
     \<lparr>pdf_file = Some \<lparr>name = ''form.pdf'', type = ''application/pdf''\<rparr>, loading = True,
      streamingState = Some \<lparr>total_pages = JNum (3::nat),
        results = [\<lparr>page_number = JNum 1, ocr_text = JStr ''Name: Ada'', status = JStr ''success'',
          result_error = JUndefined, page_image = JUndefined\<rparr>],
        processing_page = JNum 2, api_calls_made = JUndefined, complete = False\<rparr>,
      error = JStr [], dragActive = False, currentPageIndex = 0\<rparr>"
  by (simp add: handleData_def updateStreamingState_def newResult_def)

text \<open>
  Claim C4, on the state an earlier job of two pages has left: the stream of a job of
  three pages whose second page fails, submitted from that state and then again from the
  state reached. Both submissions end with the three results of the stream, in its
  order, and \<open>complete\<close> set.
\<close>

theorem metadata_sets_total_pages_only_witness:
  "streamingState
     \<lparr>pdf_file = Some \<lparr>name = ''form.pdf'', type = ''application/pdf''\<rparr>, loading = False,
      streamingState = Some \<lparr>total_pages = JNum (2::nat),
        results = [\<lparr>page_number = JNum 1, ocr_text = JStr ''Name: Ada'', status = JStr ''success'',
          result_error = JUndefined, page_image = JUndefined\<rparr>,
         \<lparr>page_number = JNum 2, ocr_text = JStr ''Date: today'', status = JStr ''success'',
          result_error = JUndefined, page_image = JUndefined\<rparr>],
        processing_page = JUndefined, api_calls_made = JNum 2, complete = True\<rparr>,
      error = JStr [], dragActive = False, currentPageIndex = 0\<rparr> =
   Some \<lparr>total_pages = JNum (2::nat),
        results = [\<lparr>page_number = JNum 1, ocr_text = JStr ''Name: Ada'', status = JStr ''success'',
          result_error = JUndefined, page_image = JUndefined\<rparr>,
         \<lparr>page_number = JNum 2, ocr_text = JStr ''Date: today'', status = JStr ''success'',
          result_error = JUndefined, page_image = JUndefined\<rparr>],
        processing_page = JUndefined, api_calls_made = JNum 2, complete = True\<rparr> \<and>
   get (JObj [(''type'', JStr ''metadata''), (''total_pages'', JNum (3::nat))]) ''type'' = JStr ''metadata'' \<and>
   handleSubmit (\<lambda>d b. (d, [char_of (unat b)])) ()
     (map_of
      [(''{\"type\":\"metadata\",\"total_pages\":3}'',
        (JObj [(''type'', JStr ''metadata''), (''total_pages'', JNum (3::nat))])),
       (''{\"type\":\"result\",\"page_number\":1,\"status\":\"success\",\"ocr_text\":\"Name: Ada\"}'',
        (JObj [(''type'', JStr ''result''), (''page_number'', JNum (1::nat)), (''status'', JStr ''success''), (''ocr_text'', JStr ''Name: Ada'')])),
       (''{\"type\":\"result\",\"page_number\":2,\"status\":\"error\",\"error\":\"timeout\"}'',
        (JObj [(''type'', JStr ''result''), (''page_number'', JNum (2::nat)), (''status'', JStr ''error''), (''error'', JStr ''timeout'')])),
       (''{\"type\":\"result\",\"page_number\":3,\"status\":\"success\",\"ocr_text\":\"Signed\"}'',
        (JObj [(''type'', JStr ''result''), (''page_number'', JNum (3::nat)), (''status'', JStr ''success''), (''ocr_text'', JStr ''Signed'')])),
       (''{\"type\":\"complete\",\"api_calls_made\":3}'',
        (JObj [(''type'', JStr ''complete''), (''api_calls_made'', JNum (3::nat))]))])
     decimal
     (Body
       [map of_char ''data: {\"type\":\"metadata\",\"total_pages\":3}\<newline>\<newline>data: {\"type\":\"result\",\"page_nu'',
        map of_char ''mber\":1,\"status\":\"success\",\"ocr_text\":\"Name: Ada\"}\<newline>\<newline>data: {\"type\":\"result\",\"page_number\":2,\"status\":\"error\",\"error\":\"timeout\"}\<newline>\<newline>data: {\"type\":\"result\",\"page_number\":3,\"status\":\"success\",\"ocr_text\":\"Signed\"}\<newline>\<newline>data: {\"type\":\"complete\",\"api_calls_made\":3}\<newline>\<newline>''] Done)
     \<lparr>pdf_file = Some \<lparr>name = ''form.pdf'', type = ''application/pdf''\<rparr>, loading = False,
      streamingState = Some \<lparr>total_pages = JNum (2::nat),
        results = [\<lparr>page_number = JNum 1, ocr_text = JStr ''Name: Ada'', status = JStr ''success'',
          result_error = JUndefined, page_image = JUndefined\<rparr>,
         \<lparr>page_number = JNum 2, ocr_text = JStr ''Date: today'', status = JStr ''success'',
          result_error = JUndefined, page_image = JUndefined\<rparr>],
        processing_page = JUndefined, api_calls_made = JNum 2, complete = True\<rparr>,
      error = JStr [], dragActive = False, currentPageIndex = 0\<rparr> =
   Inr
     \<lparr>pdf_file = Some \<lparr>name = ''form.pdf'', type = ''application/pdf''\<rparr>, loading = False,
      streamingState = Some \<lparr>total_pages = JNum (3::nat),
        results = [\<lparr>page_number = JNum 1, ocr_text = JStr ''Name: Ada'', status = JStr ''success'',
          result_error = JUndefined, page_image = JUndefined\<rparr>,
         \<lparr>page_number = JNum 2, ocr_text = JUndefined, status = JStr ''error'',
          result_error = JStr ''timeout'', page_image = JUndefined\<rparr>,
         \<lparr>page_number = JNum 3, ocr_text = JStr ''Signed'', status = JStr ''success'',
          result_error = JUndefined, page_image = JUndefined\<rparr>],
        processing_page = JUndefined, api_calls_made = JNum 3, complete = True\<rparr>,
      error = JStr [], dragActive = False, currentPageIndex = 0\<rparr> \<and>
   handleSubmit (\<lambda>d b. (d, [char_of (unat b)])) ()
     (map_of
      [(''{\"type\":\"metadata\",\"total_pages\":3}'',
        (JObj [(''type'', JStr ''metadata''), (''total_pages'', JNum (3::nat))])),
       (''{\"type\":\"result\",\"page_number\":1,\"status\":\"success\",\"ocr_text\":\"Name: Ada\"}'',
        (JObj [(''type'', JStr ''result''), (''page_number'', JNum (1::nat)), (''status'', JStr ''success''), (''ocr_text'', JStr ''Name: Ada'')])),
       (''{\"type\":\"result\",\"page_number\":2,\"status\":\"error\",\"error\":\"timeout\"}'',
        (JObj [(''type'', JStr ''result''), (''page_number'', JNum (2::nat)), (''status'', JStr ''error''), (''error'', JStr ''timeout'')])),
       (''{\"type\":\"result\",\"page_number\":3,\"status\":\"success\",\"ocr_text\":\"Signed\"}'',
        (JObj [(''type'', JStr ''result''), (''page_number'', JNum (3::nat)), (''status'', JStr ''success''), (''ocr_text'', JStr ''Signed'')])),
       (''{\"type\":\"complete\",\"api_calls_made\":3}'',
        (JObj [(''type'', JStr ''complete''), (''api_calls_made'', JNum (3::nat))]))])
     decimal
     (Body
       [map of_char ''data: {\"type\":\"metadata\",\"total_pages\":3}\<newline>\<newline>data: {\"type\":\"result\",\"page_nu'',
        map of_char ''mber\":1,\"status\":\"success\",\"ocr_text\":\"Name: Ada\"}\<newline>\<newline>data: {\"type\":\"result\",\"page_number\":2,\"status\":\"error\",\"error\":\"timeout\"}\<newline>\<newline>data: {\"type\":\"result\",\"page_number\":3,\"status\":\"success\",\"ocr_text\":\"Signed\"}\<newline>\<newline>data: {\"type\":\"complete\",\"api_calls_made\":3}\<newline>\<newline>''] Done)
     \<lparr>pdf_file = Some \<lparr>name = ''form.pdf'', type = ''application/pdf''\<rparr>, loading = False,
      streamingState = Some \<lparr>total_pages = JNum (3::nat),
        results = [\<lparr>page_number = JNum 1, ocr_text = JStr ''Name: Ada'', status = JStr ''success'',
          result_error = JUndefined, page_image = JUndefined\<rparr>,
         \<lparr>page_number = JNum 2, ocr_text = JUndefined, status = JStr ''error'',
          result_error = JStr ''timeout'', page_image = JUndefined\<rparr>,
         \<lparr>page_number = JNum 3, ocr_text = JStr ''Signed'', status = JStr ''success'',
          result_error = JUndefined, page_image = JUndefined\<rparr>],
        processing_page = JUndefined, api_calls_made = JNum 3, complete = True\<rparr>,
      error = JStr [], dragActive = False, currentPageIndex = 0\<rparr> =
   Inr
     \<lparr>pdf_file = Some \<lparr>name = ''form.pdf'', type = ''application/pdf''\<rparr>, loading = False,
      streamingState = Some \<lparr>total_pages = JNum (3::nat),
        results = [\<lparr>page_number = JNum 1, ocr_text = JStr ''Name: Ada'', status = JStr ''success'',
          result_error = JUndefined, page_image = JUndefined\<rparr>,
         \<lparr>page_number = JNum 2, ocr_text = JUndefined, status = JStr ''error'',
          result_error = JStr ''timeout'', page_image = JUndefined\<rparr>,
         \<lparr>page_number = JNum 3, ocr_text = JStr ''Signed'', status = JStr ''success'',
          result_error = JUndefined, page_image = JUndefined\<rparr>],
        processing_page = JUndefined, api_calls_made = JNum 3, complete = True\<rparr>,
      error = JStr [], dragActive = False, currentPageIndex = 0\<rparr>"
proof -
  let ?P = "(map_of
      [(''{\"type\":\"metadata\",\"total_pages\":3}'',
        (JObj [(''type'', JStr ''metadata''), (''total_pages'', JNum (3::nat))])),
       (''{\"type\":\"result\",\"page_number\":1,\"status\":\"success\",\"ocr_text\":\"Name: Ada\"}'',
        (JObj [(''type'', JStr ''result''), (''page_number'', JNum (1::nat)), (''status'', JStr ''success''), (''ocr_text'', JStr ''Name: Ada'')])),
       (''{\"type\":\"result\",\"page_number\":2,\"status\":\"error\",\"error\":\"timeout\"}'',
        (JObj [(''type'', JStr ''result''), (''page_number'', JNum (2::nat)), (''status'', JStr ''error''), (''error'', JStr ''timeout'')])),
       (''{\"type\":\"result\",\"page_number\":3,\"status\":\"success\",\"ocr_text\":\"Signed\"}'',
        (JObj [(''type'', JStr ''result''), (''page_number'', JNum (3::nat)), (''status'', JStr ''success''), (''ocr_text'', JStr ''Signed'')])),
       (''{\"type\":\"complete\",\"api_calls_made\":3}'',
        (JObj [(''type'', JStr ''complete''), (''api_calls_made'', JNum (3::nat))]))])"
  let ?resp = "Body
       [map of_char ''data: {\"type\":\"metadata\",\"total_pages\":3}\<newline>\<newline>data: {\"type\":\"result\",\"page_nu'',
        map of_char ''mber\":1,\"status\":\"success\",\"ocr_text\":\"Name: Ada\"}\<newline>\<newline>data: {\"type\":\"result\",\"page_number\":2,\"status\":\"error\",\"error\":\"timeout\"}\<newline>\<newline>data: {\"type\":\"result\",\"page_number\":3,\"status\":\"success\",\"ocr_text\":\"Signed\"}\<newline>\<newline>data: {\"type\":\"complete\",\"api_calls_made\":3}\<newline>\<newline>''] Done"
  let ?A = "\<lparr>pdf_file = Some \<lparr>name = ''form.pdf'', type = ''application/pdf''\<rparr>, loading = False,
      streamingState = Some \<lparr>total_pages = JNum (2::nat),
        results = [\<lparr>page_number = JNum 1, ocr_text = JStr ''Name: Ada'', status = JStr ''success'',
          result_error = JUndefined, page_image = JUndefined\<rparr>,
         \<lparr>page_number = JNum 2, ocr_text = JStr ''Date: today'', status = JStr ''success'',
          result_error = JUndefined, page_image = JUndefined\<rparr>],
        processing_page = JUndefined, api_calls_made = JNum 2, complete = True\<rparr>,
      error = JStr [], dragActive = False, currentPageIndex = 0\<rparr>"
  let ?B = "\<lparr>pdf_file = Some \<lparr>name = ''form.pdf'', type = ''application/pdf''\<rparr>, loading = False,
      streamingState = Some \<lparr>total_pages = JNum (3::nat),
        results = [\<lparr>page_number = JNum 1, ocr_text = JStr ''Name: Ada'', status = JStr ''success'',
          result_error = JUndefined, page_image = JUndefined\<rparr>,
         \<lparr>page_number = JNum 2, ocr_text = JUndefined, status = JStr ''error'',
          result_error = JStr ''timeout'', page_image = JUndefined\<rparr>,
         \<lparr>page_number = JNum 3, ocr_text = JStr ''Signed'', status = JStr ''success'',
          result_error = JUndefined, page_image = JUndefined\<rparr>],
        processing_page = JUndefined, api_calls_made = JNum 3, complete = True\<rparr>,
      error = JStr [], dragActive = False, currentPageIndex = 0\<rparr>"
  have h1: "streamingState ?A = Some \<lparr>total_pages = JNum (2::nat),
        results = [\<lparr>page_number = JNum 1, ocr_text = JStr ''Name: Ada'', status = JStr ''success'',
          result_error = JUndefined, page_image = JUndefined\<rparr>,
         \<lparr>page_number = JNum 2, ocr_text = JStr ''Date: today'', status = JStr ''success'',
          result_error = JUndefined, page_image = JUndefined\<rparr>],
        processing_page = JUndefined, api_calls_made = JNum 2, complete = True\<rparr>"
    by simp
  have h2: "get (JObj [(''type'', JStr ''metadata''), (''total_pages'', JNum (3::nat))]) ''type'' = JStr ''metadata''"
    by simp
  have a: "handleSubmit (\<lambda>d b. (d, [char_of (unat b)])) () ?P decimal ?resp ?A = Inr ?B"
    by code_simp
  from metadata_sets_total_pages_only
    [OF h1 h2, of "(\<lambda>d b. (d, [char_of (unat b)]))" "()" ?P decimal ?resp]
  have "\<exists>app1. handleSubmit (\<lambda>d b. (d, [char_of (unat b)])) () ?P decimal ?resp ?A = Inr app1 \<and>
      handleSubmit (\<lambda>d b. (d, [char_of (unat b)])) () ?P decimal ?resp app1 = Inr app1"
    by (rule conjunct2 [THEN conjunct2])
  with a have b: "handleSubmit (\<lambda>d b. (d, [char_of (unat b)])) () ?P decimal ?resp ?B = Inr ?B"
    by (metis sum.inject(2))
  show ?thesis by (intro conjI h1 h2 a b)
qed

subsection \<open>The exported document\<close>

lemma those_map_all2:
  "those (map f xs) = Some ys \<Longrightarrow> list_all2 (\<lambda>x y. f x = Some y) xs ys"
  by (induction xs arbitrary: ys) (auto split: option.splits)

lemma all2_those_map:
  "list_all2 (\<lambda>x y. f x = Some y) xs ys \<Longrightarrow> those (map f xs) = Some ys"
  by (induction xs ys rule: list_all2_induct) auto

lemma subseq_successful: "subseq (successful rs) rs"
  by (simp add: successful_def)

lemma set_successful: "set (successful rs) = {r \<in> set rs. status r = JStr ''success''}"
  by (auto simp: successful_def)

lemma sorted_successful:
  "sorted_wrt lt (map page_number rs) \<Longrightarrow> sorted_wrt lt (map page_number (successful rs))"
  by (simp add: successful_def sorted_wrt_map sorted_wrt_filter)

text \<open>
  Claim C8, amended. A document is produced exactly when there are results and no
  conversion to a string throws. It is the head followed by the sections of the results
  with status \<open>success\<close>, one section each, joined by line feeds. These are all the
  successful results and no other, in the order in which they stand in the results;
  their page numbers ascend wherever those of the results do.
\<close>

theorem export_successful_in_results_order:
  "(handleDownloadMarkdown N now app = Document doc \<longleftrightarrow>
      (\<exists>st head pages. streamingState app = Some st \<and> results st \<noteq> [] \<and>
         document_head N now (pdf_file app) st = Some head \<and>
         list_all2 (\<lambda>result page. page_md N result = Some page)
           (successful (results st)) pages \<and>
         doc = head @ join [CHR 0x0A] pages)) \<and>
   subseq (successful rs) rs \<and>
   set (successful rs) = {r \<in> set rs. status r = JStr ''success''} \<and>
   (sorted_wrt lt (map page_number rs) \<longrightarrow> sorted_wrt lt (map page_number (successful rs)))"
proof -
  have "\<exists>st head pages. streamingState app = Some st \<and> results st \<noteq> [] \<and>
         document_head N now (pdf_file app) st = Some head \<and>
         list_all2 (\<lambda>result page. page_md N result = Some page)
           (successful (results st)) pages \<and>
         doc = head @ join [CHR 0x0A] pages"
    if d: "handleDownloadMarkdown N now app = Document doc"
  proof -
    from d obtain st where st: "streamingState app = Some st"
      by (auto simp: handleDownloadMarkdown_def split: option.splits)
    from d st have ne: "results st \<noteq> []"
      by (auto simp: handleDownloadMarkdown_def split: if_splits)
    from d st ne obtain md head where md: "markdownContent N (results st) = Some md"
      and head: "document_head N now (pdf_file app) st = Some head" and doc: "doc = head @ md"
      by (auto simp: handleDownloadMarkdown_def split: option.splits)
    from md obtain pages where p: "those (map (page_md N) (successful (results st))) = Some pages"
      and j: "md = join [CHR 0x0A] pages"
      by (auto simp: markdownContent_def)
    from p have "list_all2 (\<lambda>result page. page_md N result = Some page)
        (successful (results st)) pages"
      by (rule those_map_all2)
    with st ne head doc j show ?thesis by blast
  qed
  moreover have "handleDownloadMarkdown N now app = Document doc"
    if "\<exists>st head pages. streamingState app = Some st \<and> results st \<noteq> [] \<and>
         document_head N now (pdf_file app) st = Some head \<and>
         list_all2 (\<lambda>result page. page_md N result = Some page)
           (successful (results st)) pages \<and>
         doc = head @ join [CHR 0x0A] pages"
  proof -
    from that obtain st head pages where st: "streamingState app = Some st"
      and ne: "results st \<noteq> []"
      and head: "document_head N now (pdf_file app) st = Some head"
      and all2: "list_all2 (\<lambda>result page. page_md N result = Some page)
           (successful (results st)) pages"
      and doc: "doc = head @ join [CHR 0x0A] pages" by blast
    from all2 have "those (map (page_md N) (successful (results st))) = Some pages"
      by (rule all2_those_map)
    then have "markdownContent N (results st) = Some (join [CHR 0x0A] pages)"
      by (simp add: markdownContent_def)
    with st ne head doc show ?thesis by (simp add: handleDownloadMarkdown_def)
  qed
  ultimately have "handleDownloadMarkdown N now app = Document doc \<longleftrightarrow>
      (\<exists>st head pages. streamingState app = Some st \<and> results st \<noteq> [] \<and>
         document_head N now (pdf_file app) st = Some head \<and>
         list_all2 (\<lambda>result page. page_md N result = Some page)
           (successful (results st)) pages \<and>
         doc = head @ join [CHR 0x0A] pages)" by blast
  then show ?thesis
    using subseq_successful [of rs] set_successful [of rs] sorted_successful [of lt rs]
    by blast
qed

text \<open>
  Claim C8 as it is written fails: with the result of page 2 before the result of page 1,
  the document has page 2 before page 1.
\<close>

theorem export_not_ascending_counterexample:
  "handleDownloadMarkdown decimal ''11/2/2026, 9:00:00 AM''
     \<lparr>pdf_file = Some \<lparr>name = ''form.pdf'', type = ''application/pdf''\<rparr>, loading = False,
      streamingState = Some \<lparr>total_pages = JNum (2::nat),
        results = [\<lparr>page_number = JNum 2, ocr_text = JStr ''Date: today'', status = JStr ''success'',
          result_error = JUndefined, page_image = JUndefined\<rparr>,
         \<lparr>page_number = JNum 1, ocr_text = JStr ''Name: Ada'', status = JStr ''success'',
          result_error = JUndefined, page_image = JUndefined\<rparr>],
        processing_page = JUndefined, api_calls_made = JNum 2, complete = True\<rparr>,
      error = JStr [], dragActive = False, currentPageIndex = 0\<rparr> =
   Document
     ''# OCR Results - form.pdf\<newline>\<newline>**Total Pages:** 2\<newline>**Successful Pages:** 2\<newline>**Generated:** 11/2/2026, 9:00:00 AM\<newline>\<newline>---\<newline>\<newline># Page 2\<newline>\<newline>Date: today\<newline>\<newline>---\<newline>\<newline># Page 1\<newline>\<newline>Name: Ada\<newline>\<newline>---\<newline>''"
  by code_simp

text \<open>
  Claim C8, on the results of a job of three pages whose second page failed: the
  document has page 1 and page 3, in this order, and nothing of page 2. The page
  numbers of the results ascend, and so do those of the pages exported.
\<close>

theorem export_successful_in_results_order_witness:
  "handleDownloadMarkdown decimal ''11/2/2026, 9:00:00 AM''
     \<lparr>pdf_file = Some \<lparr>name = ''form.pdf'', type = ''application/pdf''\<rparr>, loading = False,
      streamingState = Some \<lparr>total_pages = JNum (3::nat),
        results = [\<lparr>page_number = JNum 1, ocr_text = JStr ''Name: Ada'', status = JStr ''success'',
          result_error = JUndefined, page_image = JUndefined\<rparr>,
         \<lparr>page_number = JNum 2, ocr_text = JUndefined, status = JStr ''error'',
          result_error = JStr ''timeout'', page_image = JUndefined\<rparr>,
         \<lparr>page_number = JNum 3, ocr_text = JStr ''Signed'', status = JStr ''success'',
          result_error = JUndefined, page_image = JUndefined\<rparr>],
        processing_page = JUndefined, api_calls_made = JNum 3, complete = True\<rparr>,
      error = JStr [], dragActive = False, currentPageIndex = 0\<rparr> =
   Document
     ''# OCR Results - form.pdf\<newline>\<newline>**Total Pages:** 3\<newline>**Successful Pages:** 2\<newline>**Generated:** 11/2/2026, 9:00:00 AM\<newline>\<newline>---\<newline>\<newline># Page 1\<newline>\<newline>Name: Ada\<newline>\<newline>---\<newline>\<newline># Page 3\<newline>\<newline>Signed\<newline>\<newline>---\<newline>'' \<and>
   successful
     [\<lparr>page_number = JNum 1, ocr_text = JStr ''Name: Ada'', status = JStr ''success'',
          result_error = JUndefined, page_image = JUndefined\<rparr>,
      \<lparr>page_number = JNum 2, ocr_text = JUndefined, status = JStr ''error'',
          result_error = JStr ''timeout'', page_image = JUndefined\<rparr>,
      \<lparr>page_number = JNum 3, ocr_text = JStr ''Signed'', status = JStr ''success'',
          result_error = JUndefined, page_image = JUndefined\<rparr>] =
     [\<lparr>page_number = JNum 1, ocr_text = JStr ''Name: Ada'', status = JStr ''success'',
          result_error = JUndefined, page_image = JUndefined\<rparr>,
      \<lparr>page_number = JNum 3, ocr_text = JStr ''Signed'', status = JStr ''success'',
          result_error = JUndefined, page_image = JUndefined\<rparr> :: nat OCRResult] \<and>
   sorted_wrt (\<lambda>a b. case a of JNum x \<Rightarrow> (case b of JNum y \<Rightarrow> x < y | _ \<Rightarrow> False) | _ \<Rightarrow> False)
     (map page_number
       [\<lparr>page_number = JNum 1, ocr_text = JStr ''Name: Ada'', status = JStr ''success'',
          result_error = JUndefined, page_image = JUndefined\<rparr>,
        \<lparr>page_number = JNum 2, ocr_text = JUndefined, status = JStr ''error'',
          result_error = JStr ''timeout'', page_image = JUndefined\<rparr>,
        \<lparr>page_number = JNum 3, ocr_text = JStr ''Signed'', status = JStr ''success'',
          result_error = JUndefined, page_image = JUndefined\<rparr> :: nat OCRResult]) \<and>
   sorted_wrt (\<lambda>a b. case a of JNum x \<Rightarrow> (case b of JNum y \<Rightarrow> x < y | _ \<Rightarrow> False) | _ \<Rightarrow> False)
     (map page_number
       (successful
         [\<lparr>page_number = JNum 1, ocr_text = JStr ''Name: Ada'', status = JStr ''success'',
          result_error = JUndefined, page_image = JUndefined\<rparr>,
          \<lparr>page_number = JNum 2, ocr_text = JUndefined, status = JStr ''error'',
          result_error = JStr ''timeout'', page_image = JUndefined\<rparr>,
          \<lparr>page_number = JNum 3, ocr_text = JStr ''Signed'', status = JStr ''success'',
          result_error = JUndefined, page_image = JUndefined\<rparr> :: nat OCRResult]))"
proof -
  have h: "handleDownloadMarkdown decimal ''11/2/2026, 9:00:00 AM''
     \<lparr>pdf_file = Some \<lparr>name = ''form.pdf'', type = ''application/pdf''\<rparr>, loading = False,
      streamingState = Some \<lparr>total_pages = JNum (3::nat),
        results = [\<lparr>page_number = JNum 1, ocr_text = JStr ''Name: Ada'', status = JStr ''success'',
          result_error = JUndefined, page_image = JUndefined\<rparr>,
         \<lparr>page_number = JNum 2, ocr_text = JUndefined, status = JStr ''error'',
          result_error = JStr ''timeout'', page_image = JUndefined\<rparr>,
         \<lparr>page_number = JNum 3, ocr_text = JStr ''Signed'', status = JStr ''success'',
          result_error = JUndefined, page_image = JUndefined\<rparr>],
        processing_page = JUndefined, api_calls_made = JNum 3, complete = True\<rparr>,
      error = JStr [], dragActive = False, currentPageIndex = 0\<rparr> =
   Document
     ''# OCR Results - form.pdf\<newline>\<newline>**Total Pages:** 3\<newline>**Successful Pages:** 2\<newline>**Generated:** 11/2/2026, 9:00:00 AM\<newline>\<newline>---\<newline>\<newline># Page 1\<newline>\<newline>Name: Ada\<newline>\<newline>---\<newline>\<newline># Page 3\<newline>\<newline>Signed\<newline>\<newline>---\<newline>''"
    by code_simp
  from export_successful_in_results_order
    [of decimal "''11/2/2026, 9:00:00 AM''"
        "\<lparr>pdf_file = Some \<lparr>name = ''form.pdf'', type = ''application/pdf''\<rparr>, loading = False,
      streamingState = Some \<lparr>total_pages = JNum (3::nat),
        results = [\<lparr>page_number = JNum 1, ocr_text = JStr ''Name: Ada'', status = JStr ''success'',
          result_error = JUndefined, page_image = JUndefined\<rparr>,
         \<lparr>page_number = JNum 2, ocr_text = JUndefined, status = JStr ''error'',
          result_error = JStr ''timeout'', page_image = JUndefined\<rparr>,
         \<lparr>page_number = JNum 3, ocr_text = JStr ''Signed'', status = JStr ''success'',
          result_error = JUndefined, page_image = JUndefined\<rparr>],
        processing_page = JUndefined, api_calls_made = JNum 3, complete = True\<rparr>,
      error = JStr [], dragActive = False, currentPageIndex = 0\<rparr>"] h
  show ?thesis
    by (simp add: successful_def)
qed

lemma document_head_now:
  "document_head N now f st = Some head \<Longrightarrow>
   \<exists>pre post. head = pre @ now @ post \<and>
     (\<forall>now'. document_head N now' f st = Some (pre @ now' @ post))"
proof -
  assume a: "document_head N now f st = Some head"
  then obtain tp where tp: "toString N (total_pages st) = Some tp"
    by (auto simp: document_head_def split: option.splits)
  let ?pre = "''# OCR Results - '' @ file_name_or f ''Document'' @ [CHR 0x0A, CHR 0x0A] @
                ''**Total Pages:** '' @ tp @ [CHR 0x0A] @
                ''**Successful Pages:** '' @ N (of_nat (length (successful (results st)))) @
                  [CHR 0x0A] @
                ''**Generated:** ''"
  let ?post = "[CHR 0x0A, CHR 0x0A] @ ''---'' @ [CHR 0x0A, CHR 0x0A]"
  have "\<forall>now'. document_head N now' f st = Some (?pre @ now' @ ?post)"
    by (simp add: document_head_def tp)
  moreover from this a have "head = ?pre @ now @ ?post" by simp
  ultimately show ?thesis by blast
qed

text \<open>
  Claim C9, amended. The document is a function of the results, of \<open>total_pages\<close>, of
  the name of the file and of the time read from the clock: two states that agree on the
  first three give the same document at the same time, and the time enters the
  document at one place only, the rest being the same at any other time.
\<close>

theorem export_depends_on_results_file_clock:
  assumes "streamingState a1 = Some s1" and "streamingState a2 = Some s2"
    and "results s1 = results s2" and "total_pages s1 = total_pages s2"
    and "map_option name (pdf_file a1) = map_option name (pdf_file a2)"
  shows "handleDownloadMarkdown N now a1 = handleDownloadMarkdown N now a2 \<and>
    (\<forall>doc. handleDownloadMarkdown N now a1 = Document doc \<longrightarrow>
       (\<exists>pre post. doc = pre @ now @ post \<and>
          (\<forall>now'. handleDownloadMarkdown N now' a1 = Document (pre @ now' @ post))))"
proof -
  have n: "file_name_or (pdf_file a1) dflt = file_name_or (pdf_file a2) dflt" for dflt
    using assms(5) by (cases "pdf_file a1"; cases "pdf_file a2") (auto simp: file_name_or_def)
  have "document_head N now (pdf_file a1) s1 = document_head N now (pdf_file a2) s2"
    using assms(3,4) n by (simp add: document_head_def split: option.splits)
  then have eq: "handleDownloadMarkdown N now a1 = handleDownloadMarkdown N now a2"
    using assms(1,2,3) by (simp add: handleDownloadMarkdown_def split: option.splits)
  have "\<exists>pre post. doc = pre @ now @ post \<and>
          (\<forall>now'. handleDownloadMarkdown N now' a1 = Document (pre @ now' @ post))"
    if d: "handleDownloadMarkdown N now a1 = Document doc" for doc
  proof -
    from d assms(1) have ne: "results s1 \<noteq> []"
      by (auto simp: handleDownloadMarkdown_def split: if_splits)
    from d assms(1) ne obtain md head where md: "markdownContent N (results s1) = Some md"
      and head: "document_head N now (pdf_file a1) s1 = Some head" and doc: "doc = head @ md"
      by (auto simp: handleDownloadMarkdown_def split: option.splits)
    from document_head_now [OF head] obtain pre post where pp: "head = pre @ now @ post"
      "\<forall>now'. document_head N now' (pdf_file a1) s1 = Some (pre @ now' @ post)" by blast
    have "\<forall>now'. handleDownloadMarkdown N now' a1 = Document (pre @ now' @ (post @ md))"
      using pp(2) md ne assms(1) by (simp add: handleDownloadMarkdown_def split: option.splits)
    moreover have "doc = pre @ now @ (post @ md)" using doc pp(1) by simp
    ultimately show ?thesis by blast
  qed
  with eq show ?thesis by blast
qed

text \<open>
  Claim C9 as it is written fails: the same state exported one second later gives
  another document.
\<close>

theorem export_changes_with_clock_counterexample:
  "handleDownloadMarkdown decimal ''11/2/2026, 9:00:00 AM''
     \<lparr>pdf_file = Some \<lparr>name = ''form.pdf'', type = ''application/pdf''\<rparr>, loading = False,
      streamingState = Some \<lparr>total_pages = JNum (3::nat),
        results = [\<lparr>page_number = JNum 1, ocr_text = JStr ''Name: Ada'', status = JStr ''success'',
          result_error = JUndefined, page_image = JUndefined\<rparr>,
         \<lparr>page_number = JNum 2, ocr_text = JUndefined, status = JStr ''error'',
          result_error = JStr ''timeout'', page_image = JUndefined\<rparr>,
         \<lparr>page_number = JNum 3, ocr_text = JStr ''Signed'', status = JStr ''success'',
          result_error = JUndefined, page_image = JUndefined\<rparr>],
        processing_page = JUndefined, api_calls_made = JNum 3, complete = True\<rparr>,
      error = JStr [], dragActive = False, currentPageIndex = 0\<rparr> \<noteq>
   handleDownloadMarkdown decimal ''11/2/2026, 9:00:01 AM''
     \<lparr>pdf_file = Some \<lparr>name = ''form.pdf'', type = ''application/pdf''\<rparr>, loading = False,
      streamingState = Some \<lparr>total_pages = JNum (3::nat),
        results = [\<lparr>page_number = JNum 1, ocr_text = JStr ''Name: Ada'', status = JStr ''success'',
          result_error = JUndefined, page_image = JUndefined\<rparr>,
         \<lparr>page_number = JNum 2, ocr_text = JUndefined, status = JStr ''error'',
          result_error = JStr ''timeout'', page_image = JUndefined\<rparr>,
         \<lparr>page_number = JNum 3, ocr_text = JStr ''Signed'', status = JStr ''success'',
          result_error = JUndefined, page_image = JUndefined\<rparr>],
        processing_page = JUndefined, api_calls_made = JNum 3, complete = True\<rparr>,
      error = JStr [], dragActive = False, currentPageIndex = 0\<rparr>"
  by code_simp

text \<open>
  Claim C9, on two states with the same results, \<open>total_pages\<close> and file, which differ
  in every other field: the same document at the same time.
\<close>

theorem export_depends_on_results_file_clock_witness:
  "results \<lparr>total_pages = JNum (3::nat),
        results = [\<lparr>page_number = JNum 1, ocr_text = JStr ''Name: Ada'', status = JStr ''success'',
          result_error = JUndefined, page_image = JUndefined\<rparr>,
         \<lparr>page_number = JNum 2, ocr_text = JUndefined, status = JStr ''error'',
          result_error = JStr ''timeout'', page_image = JUndefined\<rparr>,
         \<lparr>page_number = JNum 3, ocr_text = JStr ''Signed'', status = JStr ''success'',
          result_error = JUndefined, page_image = JUndefined\<rparr>],
        processing_page = JUndefined, api_calls_made = JNum 3, complete = True\<rparr> =
   results \<lparr>total_pages = JNum (3::nat),
        results = [\<lparr>page_number = JNum 1, ocr_text = JStr ''Name: Ada'', status = JStr ''success'',
          result_error = JUndefined, page_image = JUndefined\<rparr>,
         \<lparr>page_number = JNum 2, ocr_text = JUndefined, status = JStr ''error'',
          result_error = JStr ''timeout'', page_image = JUndefined\<rparr>,
         \<lparr>page_number = JNum 3, ocr_text = JStr ''Signed'', status = JStr ''success'',
          result_error = JUndefined, page_image = JUndefined\<rparr>],
        processing_page = JNum 3, api_calls_made = JUndefined, complete = False\<rparr> \<and>
   total_pages \<lparr>total_pages = JNum (3::nat),
        results = [\<lparr>page_number = JNum 1, ocr_text = JStr ''Name: Ada'', status = JStr ''success'',
          result_error = JUndefined, page_image = JUndefined\<rparr>,
         \<lparr>page_number = JNum 2, ocr_text = JUndefined, status = JStr ''error'',
          result_error = JStr ''timeout'', page_image = JUndefined\<rparr>,
         \<lparr>page_number = JNum 3, ocr_text = JStr ''Signed'', status = JStr ''success'',
          result_error = JUndefined, page_image = JUndefined\<rparr>],
        processing_page = JUndefined, api_calls_made = JNum 3, complete = True\<rparr> =
   total_pages \<lparr>total_pages = JNum (3::nat),
        results = [\<lparr>page_number = JNum 1, ocr_text = JStr ''Name: Ada'', status = JStr ''success'',
          result_error = JUndefined, page_image = JUndefined\<rparr>,
         \<lparr>page_number = JNum 2, ocr_text = JUndefined, status = JStr ''error'',
          result_error = JStr ''timeout'', page_image = JUndefined\<rparr>,
         \<lparr>page_number = JNum 3, ocr_text = JStr ''Signed'', status = JStr ''success'',
          result_error = JUndefined, page_image = JUndefined\<rparr>],
        processing_page = JNum 3, api_calls_made = JUndefined, complete = False\<rparr> \<and>
   handleDownloadMarkdown decimal ''11/2/2026, 9:00:00 AM''
     \<lparr>pdf_file = Some \<lparr>name = ''form.pdf'', type = ''application/pdf''\<rparr>, loading = False,
      streamingState = Some \<lparr>total_pages = JNum (3::nat),
        results = [\<lparr>page_number = JNum 1, ocr_text = JStr ''Name: Ada'', status = JStr ''success'',
          result_error = JUndefined, page_image = JUndefined\<rparr>,
         \<lparr>page_number = JNum 2, ocr_text = JUndefined, status = JStr ''error'',
          result_error = JStr ''timeout'', page_image = JUndefined\<rparr>,
         \<lparr>page_number = JNum 3, ocr_text = JStr ''Signed'', status = JStr ''success'',
          result_error = JUndefined, page_image = JUndefined\<rparr>],
        processing_page = JUndefined, api_calls_made = JNum 3, complete = True\<rparr>,
      error = JStr [], dragActive = False, currentPageIndex = 0\<rparr> =
   Document
     ''# OCR Results - form.pdf\<newline>\<newline>**Total Pages:** 3\<newline>**Successful Pages:** 2\<newline>**Generated:** 11/2/2026, 9:00:00 AM\<newline>\<newline>---\<newline>\<newline># Page 1\<newline>\<newline>Name: Ada\<newline>\<newline>---\<newline>\<newline># Page 3\<newline>\<newline>Signed\<newline>\<newline>---\<newline>'' \<and>
   handleDownloadMarkdown decimal ''11/2/2026, 9:00:00 AM''
     \<lparr>pdf_file = Some \<lparr>name = ''form.pdf'', type = ''application/pdf''\<rparr>, loading = True,
      streamingState = Some \<lparr>total_pages = JNum (3::nat),
        results = [\<lparr>page_number = JNum 1, ocr_text = JStr ''Name: Ada'', status = JStr ''success'',
          result_error = JUndefined, page_image = JUndefined\<rparr>,
         \<lparr>page_number = JNum 2, ocr_text = JUndefined, status = JStr ''error'',
          result_error = JStr ''timeout'', page_image = JUndefined\<rparr>,
         \<lparr>page_number = JNum 3, ocr_text = JStr ''Signed'', status = JStr ''success'',
          result_error = JUndefined, page_image = JUndefined\<rparr>],
        processing_page = JNum 3, api_calls_made = JUndefined, complete = False\<rparr>,
      error = JStr ''slow'', dragActive = False, currentPageIndex = 2\<rparr> =
   Document
     ''# OCR Results - form.pdf\<newline>\<newline>**Total Pages:** 3\<newline>**Successful Pages:** 2\<newline>**Generated:** 11/2/2026, 9:00:00 AM\<newline>\<newline>---\<newline>\<newline># Page 1\<newline>\<newline>Name: Ada\<newline>\<newline>---\<newline>\<newline># Page 3\<newline>\<newline>Signed\<newline>\<newline>---\<newline>''"
proof -
  let ?a1 = "\<lparr>pdf_file = Some \<lparr>name = ''form.pdf'', type = ''application/pdf''\<rparr>, loading = False,
      streamingState = Some \<lparr>total_pages = JNum (3::nat),
        results = [\<lparr>page_number = JNum 1, ocr_text = JStr ''Name: Ada'', status = JStr ''success'',
          result_error = JUndefined, page_image = JUndefined\<rparr>,
         \<lparr>page_number = JNum 2, ocr_text = JUndefined, status = JStr ''error'',
          result_error = JStr ''timeout'', page_image = JUndefined\<rparr>,
         \<lparr>page_number = JNum 3, ocr_text = JStr ''Signed'', status = JStr ''success'',
          result_error = JUndefined, page_image = JUndefined\<rparr>],
        processing_page = JUndefined, api_calls_made = JNum 3, complete = True\<rparr>,
      error = JStr [], dragActive = False, currentPageIndex = 0\<rparr>"
  let ?a2 = "\<lparr>pdf_file = Some \<lparr>name = ''form.pdf'', type = ''application/pdf''\<rparr>, loading = True,
      streamingState = Some \<lparr>total_pages = JNum (3::nat),
        results = [\<lparr>page_number = JNum 1, ocr_text = JStr ''Name: Ada'', status = JStr ''success'',
          result_error = JUndefined, page_image = JUndefined\<rparr>,
         \<lparr>page_number = JNum 2, ocr_text = JUndefined, status = JStr ''error'',
          result_error = JStr ''timeout'', page_image = JUndefined\<rparr>,
         \<lparr>page_number = JNum 3, ocr_text = JStr ''Signed'', status = JStr ''success'',
          result_error = JUndefined, page_image = JUndefined\<rparr>],
        processing_page = JNum 3, api_calls_made = JUndefined, complete = False\<rparr>,
      error = JStr ''slow'', dragActive = False, currentPageIndex = 2\<rparr>"
  have h1: "streamingState ?a1 = Some \<lparr>total_pages = JNum (3::nat),
        results = [\<lparr>page_number = JNum 1, ocr_text = JStr ''Name: Ada'', status = JStr ''success'',
          result_error = JUndefined, page_image = JUndefined\<rparr>,
         \<lparr>page_number = JNum 2, ocr_text = JUndefined, status = JStr ''error'',
          result_error = JStr ''timeout'', page_image = JUndefined\<rparr>,
         \<lparr>page_number = JNum 3, ocr_text = JStr ''Signed'', status = JStr ''success'',
          result_error = JUndefined, page_image = JUndefined\<rparr>],
        processing_page = JUndefined, api_calls_made = JNum 3, complete = True\<rparr>"
    by simp
  have h2: "streamingState ?a2 = Some \<lparr>total_pages = JNum (3::nat),
        results = [\<lparr>page_number = JNum 1, ocr_text = JStr ''Name: Ada'', status = JStr ''success'',
          result_error = JUndefined, page_image = JUndefined\<rparr>,
         \<lparr>page_number = JNum 2, ocr_text = JUndefined, status = JStr ''error'',
          result_error = JStr ''timeout'', page_image = JUndefined\<rparr>,
         \<lparr>page_number = JNum 3, ocr_text = JStr ''Signed'', status = JStr ''success'',
          result_error = JUndefined, page_image = JUndefined\<rparr>],
        processing_page = JNum 3, api_calls_made = JUndefined, complete = False\<rparr>"
    by simp
  have h3: "results \<lparr>total_pages = JNum (3::nat),
        results = [\<lparr>page_number = JNum 1, ocr_text = JStr ''Name: Ada'', status = JStr ''success'',
          result_error = JUndefined, page_image = JUndefined\<rparr>,
         \<lparr>page_number = JNum 2, ocr_text = JUndefined, status = JStr ''error'',
          result_error = JStr ''timeout'', page_image = JUndefined\<rparr>,
         \<lparr>page_number = JNum 3, ocr_text = JStr ''Signed'', status = JStr ''success'',
          result_error = JUndefined, page_image = JUndefined\<rparr>],
        processing_page = JUndefined, api_calls_made = JNum 3, complete = True\<rparr> =
      results \<lparr>total_pages = JNum (3::nat),
        results = [\<lparr>page_number = JNum 1, ocr_text = JStr ''Name: Ada'', status = JStr ''success'',
          result_error = JUndefined, page_image = JUndefined\<rparr>,
         \<lparr>page_number = JNum 2, ocr_text = JUndefined, status = JStr ''error'',
          result_error = JStr ''timeout'', page_image = JUndefined\<rparr>,
         \<lparr>page_number = JNum 3, ocr_text = JStr ''Signed'', status = JStr ''success'',
          result_error = JUndefined, page_image = JUndefined\<rparr>],
        processing_page = JNum 3, api_calls_made = JUndefined, complete = False\<rparr>"
    by simp
  have h4: "total_pages \<lparr>total_pages = JNum (3::nat),
        results = [\<lparr>page_number = JNum 1, ocr_text = JStr ''Name: Ada'', status = JStr ''success'',
          result_error = JUndefined, page_image = JUndefined\<rparr>,
         \<lparr>page_number = JNum 2, ocr_text = JUndefined, status = JStr ''error'',
          result_error = JStr ''timeout'', page_image = JUndefined\<rparr>,
         \<lparr>page_number = JNum 3, ocr_text = JStr ''Signed'', status = JStr ''success'',
          result_error = JUndefined, page_image = JUndefined\<rparr>],
        processing_page = JUndefined, api_calls_made = JNum 3, complete = True\<rparr> =
      total_pages \<lparr>total_pages = JNum (3::nat),
        results = [\<lparr>page_number = JNum 1, ocr_text = JStr ''Name: Ada'', status = JStr ''success'',
          result_error = JUndefined, page_image = JUndefined\<rparr>,
         \<lparr>page_number = JNum 2, ocr_text = JUndefined, status = JStr ''error'',
          result_error = JStr ''timeout'', page_image = JUndefined\<rparr>,
         \<lparr>page_number = JNum 3, ocr_text = JStr ''Signed'', status = JStr ''success'',
          result_error = JUndefined, page_image = JUndefined\<rparr>],
        processing_page = JNum 3, api_calls_made = JUndefined, complete = False\<rparr>"
    by simp
  have h5: "map_option name (pdf_file ?a1) = map_option name (pdf_file ?a2)"
    by simp
  have d: "handleDownloadMarkdown decimal ''11/2/2026, 9:00:00 AM'' ?a1 =
      Document
     ''# OCR Results - form.pdf\<newline>\<newline>**Total Pages:** 3\<newline>**Successful Pages:** 2\<newline>**Generated:** 11/2/2026, 9:00:00 AM\<newline>\<newline>---\<newline>\<newline># Page 1\<newline>\<newline>Name: Ada\<newline>\<newline>---\<newline>\<newline># Page 3\<newline>\<newline>Signed\<newline>\<newline>---\<newline>''"
    by code_simp
  from export_depends_on_results_file_clock [OF h1 h2 h3 h4 h5, of decimal "''11/2/2026, 9:00:00 AM''"]
  have "handleDownloadMarkdown decimal ''11/2/2026, 9:00:00 AM'' ?a1 =
      handleDownloadMarkdown decimal ''11/2/2026, 9:00:00 AM'' ?a2"
    by (rule conjunct1)
  with d have "handleDownloadMarkdown decimal ''11/2/2026, 9:00:00 AM'' ?a2 =
      Document
     ''# OCR Results - form.pdf\<newline>\<newline>**Total Pages:** 3\<newline>**Successful Pages:** 2\<newline>**Generated:** 11/2/2026, 9:00:00 AM\<newline>\<newline>---\<newline>\<newline># Page 1\<newline>\<newline>Name: Ada\<newline>\<newline>---\<newline>\<newline># Page 3\<newline>\<newline>Signed\<newline>\<newline>---\<newline>''"
    by simp
  with d h3 h4 show ?thesis by (intro conjI)
qed

end
